theory Spec2Isabelle
  imports Main "HOL-Library.Word"
begin

section \<open>JavaScript values, objects and strings\<close>

text \<open>
  A JavaScript string is a sequence of UTF-16 code units; \<open>length\<close> counts them as
  \<^verbatim>\<open>.length\<close> does. String literals of the source are embedded with \<open>js\<close>.
\<close>

type_synonym js_string = "16 word list"

definition js :: "string \<Rightarrow> js_string" where
  "js s = map of_char s"

datatype regexp = RegExp js_string js_string

text \<open>
  The values that travel through option objects: \<^verbatim>\<open>undefined\<close>, \<^verbatim>\<open>null\<close>,
  booleans, integral numbers (timeouts are milliseconds), strings and regular expressions.
\<close>

datatype js_value =
    JUndefined
  | JNull
  | JBool bool
  | JNum int
  | JStr js_string
  | JRegExp regexp

text \<open>An object literal: its own properties, in insertion order.\<close>

type_synonym js_object = "(string \<times> js_value) list"

fun truthy :: "js_value \<Rightarrow> bool" where
  "truthy JUndefined = False"
| "truthy JNull = False"
| "truthy (JBool b) = b"
| "truthy (JNum n) = (n \<noteq> 0)"
| "truthy (JStr s) = (s \<noteq> [])"
| "truthy (JRegExp r) = True"

text \<open>\<^verbatim>\<open>a || b\<close>\<close>

definition js_or :: "js_value \<Rightarrow> js_value \<Rightarrow> js_value" where
  "js_or a b = (if truthy a then a else b)"

text \<open>\<^verbatim>\<open>obj.key\<close>: a property that is not there reads as \<^verbatim>\<open>undefined\<close>.\<close>

definition get_prop :: "js_object \<Rightarrow> string \<Rightarrow> js_value" where
  "get_prop obj k = (case map_of obj k of None \<Rightarrow> JUndefined | Some v \<Rightarrow> v)"

text \<open>\<^verbatim>\<open>obj[key] = v\<close>: an existing property keeps its place, a new one goes last.\<close>

fun set_prop :: "js_object \<Rightarrow> string \<Rightarrow> js_value \<Rightarrow> js_object" where
  "set_prop [] k v = [(k, v)]"
| "set_prop ((k', v') # ps) k v =
     (if k' = k then (k, v) # ps else (k', v') # set_prop ps k v)"

text \<open>
  \<^verbatim>\<open>{ ...target, ...source }\<close>: every own property of \<open>source\<close> is copied onto
  \<open>target\<close>, in order, overwriting a property of the same name.
\<close>

fun spread :: "js_object \<Rightarrow> js_object \<Rightarrow> js_object" where
  "spread target [] = target"
| "spread target ((k, v) # ps) = spread (set_prop target k v) ps"

text \<open>Template literals print a boolean as \<^verbatim>\<open>true\<close>/\<^verbatim>\<open>false\<close> and a number in decimal.\<close>

definition show_bool :: "bool \<Rightarrow> js_string" where
  "show_bool b = (if b then js ''true'' else js ''false'')"

fun show_nat :: "nat \<Rightarrow> js_string" where
  "show_nat n =
     (if n < 10 then [of_nat (48 + n)] else show_nat (n div 10) @ [of_nat (48 + n mod 10)])"

text \<open>
  \<^verbatim>\<open>String.prototype.trim\<close> removes white space and line terminators from both ends:
  TAB, LF, VT, FF, CR, SPACE, NBSP, the Unicode space separators and U+2028, U+2029,
  U+FEFF. All of them are single code units.
\<close>

definition is_js_whitespace :: "16 word \<Rightarrow> bool" where
  "is_js_whitespace c =
     (c = 0x0009 \<or> c = 0x000A \<or> c = 0x000B \<or> c = 0x000C \<or> c = 0x000D \<or> c = 0x0020
      \<or> c = 0x00A0 \<or> c = 0x1680 \<or> (0x2000 \<le> c \<and> c \<le> 0x200A) \<or> c = 0x2028
      \<or> c = 0x2029 \<or> c = 0x202F \<or> c = 0x205F \<or> c = 0x3000 \<or> c = 0xFEFF)"

definition js_trim :: "js_string \<Rightarrow> js_string" where
  "js_trim s = rev (dropWhile is_js_whitespace (rev (dropWhile is_js_whitespace s)))"

section \<open>Errors, the console and the automation capability\<close>

text \<open>
  What a \<^verbatim>\<open>catch\<close> clause can receive: an \<^verbatim>\<open>Error\<close> this code constructs itself
  (with its message), or whatever the automation library or the JavaScript engine threw.
\<close>

datatype 'e js_error = Error js_string | Thrown 'e

text \<open>What the process has printed: the arguments of each console call.\<close>

datatype console_output = ConsoleLog js_string | ConsoleError "js_value list"

text \<open>How the code describes the element it wants: the chain of locator constructors.\<close>

datatype locator =
    GetByRole js_string "js_object option"
  | GetByText regexp
  | GetByTestId js_string
  | GetByPlaceholder regexp
  | GetByLabel regexp
  | Locator js_string
  | FilterHas locator locator
  | First locator
  | Nth locator int

text \<open>The calls made on the automation library, in the order they are issued.\<close>

datatype 'h call =
    CallGoto 'h js_string js_object
  | CallClick 'h locator js_object
  | CallFill 'h locator js_string js_object
  | CallIsVisible 'h locator js_object
  | CallWaitFor 'h locator js_object
  | CallCount 'h locator
  | CallTextContent 'h locator
  | CallSetTimeout nat

text \<open>
  The automation library and the engine are outside this repository: they are a parameter.
  Each operation acts on the state of the world outside the code \<open>'w\<close> (the browser,
  the clock) through a page handle \<open>'h\<close> and either returns or throws \<open>'e\<close>; the
  browser's state may change either way.
  \<open>regexp_syntax_error\<close> is the engine's answer to \<^verbatim>\<open>new RegExp(pattern, flags)\<close>,
  \<open>process_env\<close> the process environment, \<open>set_timeout\<close> what the browser does while
  the test sleeps, \<open>clock_time\<close> what \<^verbatim>\<open>new Date().toLocaleTimeString(...)\<close> gives,
  \<open>error_stack\<close> what reading \<^verbatim>\<open>.stack\<close> of a caught error gives,
  \<open>thrown_message\<close> and \<open>thrown_truthy\<close> the \<^verbatim>\<open>.message\<close> and the truthiness of
  a value the library threw, \<open>js_parseInt\<close> the engine's \<^verbatim>\<open>parseInt\<close> (a floating-point
  number) and \<open>number_string\<close> how a template literal prints such a number.
\<close>

record ('w, 'h, 'e) automation =
  page_goto :: "'h \<Rightarrow> js_string \<Rightarrow> js_object \<Rightarrow> 'w \<Rightarrow> ('e + nat option) \<times> 'w"
  lib_click :: "'h \<Rightarrow> locator \<Rightarrow> js_object \<Rightarrow> 'w \<Rightarrow> ('e + unit) \<times> 'w"
  lib_fill :: "'h \<Rightarrow> locator \<Rightarrow> js_string \<Rightarrow> js_object \<Rightarrow> 'w \<Rightarrow> ('e + unit) \<times> 'w"
  lib_isVisible :: "'h \<Rightarrow> locator \<Rightarrow> js_object \<Rightarrow> 'w \<Rightarrow> ('e + bool) \<times> 'w"
  lib_waitFor :: "'h \<Rightarrow> locator \<Rightarrow> js_object \<Rightarrow> 'w \<Rightarrow> ('e + unit) \<times> 'w"
  lib_count :: "'h \<Rightarrow> locator \<Rightarrow> 'w \<Rightarrow> ('e + nat) \<times> 'w"
  lib_textContent :: "'h \<Rightarrow> locator \<Rightarrow> 'w \<Rightarrow> ('e + js_string option) \<times> 'w"
  set_timeout :: "nat \<Rightarrow> 'w \<Rightarrow> 'w"
  regexp_syntax_error :: "js_string \<Rightarrow> js_string \<Rightarrow> 'e option"
  process_env :: "string \<Rightarrow> js_string option"
  clock_time :: "'w \<Rightarrow> js_string"
  error_stack :: "'e js_error \<Rightarrow> js_value"
  thrown_message :: "'e \<Rightarrow> js_value"
  thrown_truthy :: "'e \<Rightarrow> bool"
  js_parseInt :: "js_string \<Rightarrow> js_value"
  number_string :: "js_value \<Rightarrow> js_string"

text \<open>
  The state a test runs in: the world outside, the calls issued so far on the automation
  library and what has been printed on the console.
\<close>

record ('w, 'h) state =
  world :: 'w
  calls :: "'h call list"
  console :: "console_output list"

type_synonym ('a, 'w, 'h, 'e) action =
  "('w, 'h) state \<Rightarrow> ('e js_error + 'a) \<times> ('w, 'h) state"

subsection \<open>Control flow: return, throw, await in sequence, try/catch\<close>

definition return_ok :: "'a \<Rightarrow> ('a, 'w, 'h, 'e) action" where
  "return_ok a s = (Inr a, s)"

definition throw :: "'e js_error \<Rightarrow> ('a, 'w, 'h, 'e) action" where
  "throw e s = (Inl e, s)"

definition and_then ::
  "('a, 'w, 'h, 'e) action \<Rightarrow> ('a \<Rightarrow> ('b, 'w, 'h, 'e) action) \<Rightarrow> ('b, 'w, 'h, 'e) action" where
  "and_then m f s = (case m s of (Inl e, s') \<Rightarrow> (Inl e, s') | (Inr a, s') \<Rightarrow> f a s')"

definition try_catch ::
  "('a, 'w, 'h, 'e) action \<Rightarrow> ('e js_error \<Rightarrow> ('a, 'w, 'h, 'e) action) \<Rightarrow> ('a, 'w, 'h, 'e) action" where
  "try_catch m h s = (case m s of (Inl e, s') \<Rightarrow> h e s' | (Inr a, s') \<Rightarrow> (Inr a, s'))"

text \<open>One call of the automation library: it is recorded, and what it throws is caught as thrown.\<close>

definition perform ::
  "('w \<Rightarrow> ('e + 'a) \<times> 'w) \<Rightarrow> 'h call \<Rightarrow> ('a, 'w, 'h, 'e) action" where
  "perform f c s =
     (case f (world s) of
        (Inl e, w') \<Rightarrow> (Inl (Thrown e), s\<lparr>world := w', calls := calls s @ [c]\<rparr>)
      | (Inr a, w') \<Rightarrow> (Inr a, s\<lparr>world := w', calls := calls s @ [c]\<rparr>))"

text \<open>\<^verbatim>\<open>new RegExp(pattern, flags)\<close> throws on a pattern the engine rejects.\<close>

definition new_RegExp ::
  "('w, 'h, 'e) automation \<Rightarrow> js_string \<Rightarrow> js_string \<Rightarrow> (regexp, 'w, 'h, 'e) action" where
  "new_RegExp A pattern flags =
     (case regexp_syntax_error A pattern flags of
        Some e \<Rightarrow> throw (Thrown e)
      | None \<Rightarrow> return_ok (RegExp pattern flags))"

subsection \<open>The logger (src/utils/logger.js)\<close>

definition colors_RESET :: js_string where "colors_RESET = 0x1B # js ''[0m''"
definition colors_BRIGHT :: js_string where "colors_BRIGHT = 0x1B # js ''[1m''"
definition colors_RED :: js_string where "colors_RED = 0x1B # js ''[31m''"
definition colors_GREEN :: js_string where "colors_GREEN = 0x1B # js ''[32m''"
definition colors_YELLOW :: js_string where "colors_YELLOW = 0x1B # js ''[33m''"
definition colors_BLUE :: js_string where "colors_BLUE = 0x1B # js ''[34m''"
definition colors_MAGENTA :: js_string where "colors_MAGENTA = 0x1B # js ''[35m''"
definition colors_CYAN :: js_string where "colors_CYAN = 0x1B # js ''[36m''"

definition console_log :: "js_string \<Rightarrow> (unit, 'w, 'h, 'e) action" where
  "console_log line s = (Inr (), s\<lparr>console := console s @ [ConsoleLog line]\<rparr>)"

definition console_error :: "js_value list \<Rightarrow> (unit, 'w, 'h, 'e) action" where
  "console_error args s = (Inr (), s\<lparr>console := console s @ [ConsoleError args]\<rparr>)"

definition getTimestamp :: "('w, 'h, 'e) automation \<Rightarrow> 'w \<Rightarrow> js_string" where
  "getTimestamp A w = clock_time A w"

text \<open>The line \<^verbatim>\<open>log(level, message, color)\<close> formats, at the time of the world \<open>w\<close>.\<close>

definition formattedMessage ::
  "('w, 'h, 'e) automation \<Rightarrow> 'w \<Rightarrow> js_string \<Rightarrow> js_string \<Rightarrow> js_string \<Rightarrow> js_string" where
  "formattedMessage A w level message color =
     (let timestamp = getTimestamp A w in
      color @ js ''['' @ timestamp @ js ''] ['' @ level @ js ''] '' @ message @ colors_RESET)"

definition Logger_log ::
  "('w, 'h, 'e) automation \<Rightarrow> js_string \<Rightarrow> js_string \<Rightarrow> js_string \<Rightarrow> (unit, 'w, 'h, 'e) action" where
  "Logger_log A level message color s =
     console_log (formattedMessage A (world s) level message color) s"

definition logger_info :: "('w, 'h, 'e) automation \<Rightarrow> js_string \<Rightarrow> (unit, 'w, 'h, 'e) action" where
  "logger_info A message = Logger_log A (js ''INFO'') message colors_CYAN"

definition logger_pass :: "('w, 'h, 'e) automation \<Rightarrow> js_string \<Rightarrow> (unit, 'w, 'h, 'e) action" where
  "logger_pass A message = Logger_log A (js ''PASS'') message colors_GREEN"

definition logger_warn :: "('w, 'h, 'e) automation \<Rightarrow> js_string \<Rightarrow> (unit, 'w, 'h, 'e) action" where
  "logger_warn A message = Logger_log A (js ''WARN'') message colors_YELLOW"

text \<open>
  \<^verbatim>\<open>error(message, error)\<close>: every caller passes the value it caught. The error this code
  constructs with \<^verbatim>\<open>new Error(m)\<close> is an object, so truthy, with message \<open>m\<close>.
\<close>

definition error_truthy :: "('w, 'h, 'e) automation \<Rightarrow> 'e js_error \<Rightarrow> bool" where
  "error_truthy A error = (case error of Error m \<Rightarrow> True | Thrown x \<Rightarrow> thrown_truthy A x)"

definition error_message :: "('w, 'h, 'e) automation \<Rightarrow> 'e js_error \<Rightarrow> js_value" where
  "error_message A error = (case error of Error m \<Rightarrow> JStr m | Thrown x \<Rightarrow> thrown_message A x)"

definition logger_error ::
  "('w, 'h, 'e) automation \<Rightarrow> js_string \<Rightarrow> 'e js_error \<Rightarrow> (unit, 'w, 'h, 'e) action" where
  "logger_error A message error =
     and_then (Logger_log A (js ''ERROR'') message colors_RED) (\<lambda>_.
     if error_truthy A error then
       console_error
         [JStr colors_RED, js_or (error_stack A error) (error_message A error),
          JStr colors_RESET]
     else return_ok ())"

definition logger_debug :: "('w, 'h, 'e) automation \<Rightarrow> js_string \<Rightarrow> (unit, 'w, 'h, 'e) action" where
  "logger_debug A message = Logger_log A (js ''DEBUG'') message colors_MAGENTA"

definition logger_section :: "js_string \<Rightarrow> (unit, 'w, 'h, 'e) action" where
  "logger_section section_name =
     (let line = replicate 50 0x3D in
      and_then (console_log (0x0A # colors_BRIGHT @ colors_BLUE @ line @ colors_RESET)) (\<lambda>_.
      and_then (console_log (colors_BRIGHT @ colors_BLUE @ section_name @ colors_RESET)) (\<lambda>_.
      console_log (colors_BRIGHT @ colors_BLUE @ line @ colors_RESET @ [0x0A]))))"

text \<open>
  What \<^verbatim>\<open>logger.error(message, error)\<close> and \<^verbatim>\<open>logger.section(name)\<close> print, as lists
  of console calls, for stating what a method has printed.
\<close>

definition printed_by_error ::
  "('w, 'h, 'e) automation \<Rightarrow> 'w \<Rightarrow> js_string \<Rightarrow> 'e js_error \<Rightarrow> console_output list" where
  "printed_by_error A w message error =
     ConsoleLog (formattedMessage A w (js ''ERROR'') message colors_RED) #
     (if error_truthy A error then
        [ConsoleError
           [JStr colors_RED, js_or (error_stack A error) (error_message A error),
            JStr colors_RESET]]
      else [])"

definition printed_by_section :: "js_string \<Rightarrow> console_output list" where
  "printed_by_section section_name =
     [ConsoleLog (0x0A # colors_BRIGHT @ colors_BLUE @ replicate 50 0x3D @ colors_RESET),
      ConsoleLog (colors_BRIGHT @ colors_BLUE @ section_name @ colors_RESET),
      ConsoleLog (colors_BRIGHT @ colors_BLUE @ replicate 50 0x3D @ colors_RESET @ [0x0A])]"

subsection \<open>Configuration (src/utils/config.js)\<close>

definition env_or :: "('w, 'h, 'e) automation \<Rightarrow> string \<Rightarrow> js_string \<Rightarrow> js_string" where
  "env_or A name dflt =
     (case process_env A name of
        None \<Rightarrow> dflt
      | Some v \<Rightarrow> (if v = [] then dflt else v))"

definition BASE_URL :: "('w, 'h, 'e) automation \<Rightarrow> js_string" where
  "BASE_URL A = env_or A ''BASE_URL'' (js ''https://sauce-demo.myshopify.com/'')"

definition CREDENTIALS_email :: "('w, 'h, 'e) automation \<Rightarrow> js_string" where
  "CREDENTIALS_email A = env_or A ''TEST_EMAIL'' (js ''test@example.com'')"

definition CREDENTIALS_password :: "('w, 'h, 'e) automation \<Rightarrow> js_string" where
  "CREDENTIALS_password A = env_or A ''TEST_PASSWORD'' (js ''testPassword123'')"

definition TIMEOUTS_SHORT :: int where "TIMEOUTS_SHORT = 2000"
definition TIMEOUTS_MEDIUM :: int where "TIMEOUTS_MEDIUM = 5000"
definition TIMEOUTS_LONG :: int where "TIMEOUTS_LONG = 10000"
definition TIMEOUTS_NAVIGATION :: int where "TIMEOUTS_NAVIGATION = 8000"
definition TIMEOUTS_ELEMENT :: int where "TIMEOUTS_ELEMENT = 3000"

definition DELAYS_SHORT_DELAY :: nat where "DELAYS_SHORT_DELAY = 500"
definition DELAYS_MEDIUM_DELAY :: nat where "DELAYS_MEDIUM_DELAY = 1000"

section \<open>BasePage (src/pages/BasePage.js)\<close>

text \<open>
  A page object holds the page handle it was constructed with; the class it was constructed
  as is kept beside it. The constructor's argument is a page handle, \<^verbatim>\<open>null\<close>, or
  missing (\<^verbatim>\<open>undefined\<close>); a page handle is an object and so never falsy.
\<close>

datatype page_class = BasePageClass | LoginPageClass | HomePageClass

record 'h page_object =
  page :: 'h
  cls :: page_class

datatype 'h page_arg = Missing | Null | PageHandle 'h

fun new_BasePage :: "'h page_arg \<Rightarrow> ('h page_object, 'w, 'h, 'e) action" where
  "new_BasePage (PageHandle h) = return_ok \<lparr>page = h, cls = BasePageClass\<rparr>"
| "new_BasePage falsy =
     throw (Error (js ''Page object is required to initialize BasePage''))"

subsection \<open>The calls a page object makes on its handle\<close>

definition locator_click ::
  "('w, 'h, 'e) automation \<Rightarrow> 'h page_object \<Rightarrow> locator \<Rightarrow> js_object \<Rightarrow> (unit, 'w, 'h, 'e) action" where
  "locator_click A this l opts = perform (lib_click A (page this) l opts) (CallClick (page this) l opts)"

definition locator_fill ::
  "('w, 'h, 'e) automation \<Rightarrow> 'h page_object \<Rightarrow> locator \<Rightarrow> js_string \<Rightarrow> js_object
     \<Rightarrow> (unit, 'w, 'h, 'e) action" where
  "locator_fill A this l v opts =
     perform (lib_fill A (page this) l v opts) (CallFill (page this) l v opts)"

definition locator_isVisible ::
  "('w, 'h, 'e) automation \<Rightarrow> 'h page_object \<Rightarrow> locator \<Rightarrow> js_object \<Rightarrow> (bool, 'w, 'h, 'e) action" where
  "locator_isVisible A this l opts =
     perform (lib_isVisible A (page this) l opts) (CallIsVisible (page this) l opts)"

definition locator_waitFor ::
  "('w, 'h, 'e) automation \<Rightarrow> 'h page_object \<Rightarrow> locator \<Rightarrow> js_object \<Rightarrow> (unit, 'w, 'h, 'e) action" where
  "locator_waitFor A this l opts =
     perform (lib_waitFor A (page this) l opts) (CallWaitFor (page this) l opts)"

definition locator_count ::
  "('w, 'h, 'e) automation \<Rightarrow> 'h page_object \<Rightarrow> locator \<Rightarrow> (nat, 'w, 'h, 'e) action" where
  "locator_count A this l = perform (lib_count A (page this) l) (CallCount (page this) l)"

definition locator_textContent ::
  "('w, 'h, 'e) automation \<Rightarrow> 'h page_object \<Rightarrow> locator \<Rightarrow> (js_string option, 'w, 'h, 'e) action" where
  "locator_textContent A this l =
     perform (lib_textContent A (page this) l) (CallTextContent (page this) l)"

text \<open>\<^verbatim>\<open>locator.isVisible(opts).catch(() => false)\<close>\<close>

definition isVisible_or_false ::
  "('w, 'h, 'e) automation \<Rightarrow> 'h page_object \<Rightarrow> locator \<Rightarrow> js_object \<Rightarrow> (bool, 'w, 'h, 'e) action" where
  "isVisible_or_false A this l opts =
     try_catch (locator_isVisible A this l opts) (\<lambda>_. return_ok False)"

subsection \<open>Methods\<close>

definition BasePage_goto ::
  "('w, 'h, 'e) automation \<Rightarrow> 'h page_object \<Rightarrow> js_string \<Rightarrow> js_object
     \<Rightarrow> (nat option, 'w, 'h, 'e) action" where
  "BasePage_goto A this url options =
     try_catch
       (let timeout = js_or (get_prop options ''timeout'') (JNum TIMEOUTS_NAVIGATION) in
        and_then (logger_info A (js ''Navigating to: '' @ url)) (\<lambda>_.
        and_then
          (perform
             (page_goto A (page this) url
                [(''waitUntil'', JStr (js ''networkidle'')), (''timeout'', timeout)])
             (CallGoto (page this) url
                [(''waitUntil'', JStr (js ''networkidle'')), (''timeout'', timeout)]))
          (\<lambda>response.
        and_then (logger_pass A (js ''Successfully navigated to: '' @ url)) (\<lambda>_.
        return_ok response))))
       (\<lambda>error.
        and_then (logger_error A (js ''Failed to navigate to '' @ url) error) (\<lambda>_.
        throw error))"

text \<open>
  The second argument of \<^verbatim>\<open>clickByRole\<close>: a string (the accessible name, made a
  case-insensitive pattern), an options object handed on as it is, or nothing.
\<close>

datatype name_or_options = NameString js_string | OptionsObject js_object | NoName

definition BasePage_clickByRole ::
  "('w, 'h, 'e) automation \<Rightarrow> 'h page_object \<Rightarrow> js_string \<Rightarrow> name_or_options \<Rightarrow> js_object
     \<Rightarrow> (unit, 'w, 'h, 'e) action" where
  "BasePage_clickByRole A this role nameOrOptions options =
     try_catch
       (let timeout = js_or (get_prop options ''timeout'') (JNum TIMEOUTS_ELEMENT) in
        and_then
          (case nameOrOptions of
             NameString n \<Rightarrow>
               and_then (new_RegExp A n (js ''i'')) (\<lambda>r.
               return_ok (GetByRole role (Some [(''name'', JRegExp r)])))
           | OptionsObject obj \<Rightarrow> return_ok (GetByRole role (Some obj))
           | NoName \<Rightarrow> return_ok (GetByRole role None))
          (\<lambda>locator.
        and_then (locator_click A this locator (spread [(''timeout'', timeout)] options)) (\<lambda>_.
        logger_pass A (js ''Clicked element with role: '' @ role))))
       (\<lambda>error.
        and_then (logger_error A (js ''Failed to click element with role: '' @ role) error) (\<lambda>_.
        throw error))"

definition BasePage_clickByText ::
  "('w, 'h, 'e) automation \<Rightarrow> 'h page_object \<Rightarrow> js_string \<Rightarrow> js_object
     \<Rightarrow> (unit, 'w, 'h, 'e) action" where
  "BasePage_clickByText A this text options =
     try_catch
       (let timeout = js_or (get_prop options ''timeout'') (JNum TIMEOUTS_ELEMENT) in
        and_then (new_RegExp A text (js ''i'')) (\<lambda>r.
        and_then
          (locator_click A this (First (GetByText r)) (spread [(''timeout'', timeout)] options))
          (\<lambda>_.
        logger_pass A (js ''Clicked element with text: '' @ text))))
       (\<lambda>error.
        and_then (logger_error A (js ''Failed to click element with text: '' @ text) error) (\<lambda>_.
        throw error))"

definition BasePage_clickByTestId ::
  "('w, 'h, 'e) automation \<Rightarrow> 'h page_object \<Rightarrow> js_string \<Rightarrow> js_object
     \<Rightarrow> (unit, 'w, 'h, 'e) action" where
  "BasePage_clickByTestId A this testId options =
     try_catch
       (let timeout = js_or (get_prop options ''timeout'') (JNum TIMEOUTS_ELEMENT) in
        and_then
          (locator_click A this (GetByTestId testId) (spread [(''timeout'', timeout)] options))
          (\<lambda>_.
        logger_pass A (js ''Clicked element with testId: '' @ testId)))
       (\<lambda>error.
        and_then (logger_error A (js ''Failed to click element with testId: '' @ testId) error)
          (\<lambda>_.
        throw error))"

definition password_by_label :: "js_string \<Rightarrow> locator" where
  \<open>password_by_label name =
     First (FilterHas (Locator (js ''input[type="password"]''))
                      (Locator (js ''label:has-text("'' @ name @ js ''")'')))\<close>

definition BasePage_fillPassword ::
  "('w, 'h, 'e) automation \<Rightarrow> 'h page_object \<Rightarrow> js_string \<Rightarrow> js_string \<Rightarrow> js_object
     \<Rightarrow> (unit, 'w, 'h, 'e) action" where
  \<open>BasePage_fillPassword A this name v options =
     try_catch
       (and_then (locator_fill A this (password_by_label name) v options) (\<lambda>_.
        logger_pass A (js ''Filled password field with masked value'')))
       (\<lambda>error.
        try_catch
          (and_then (new_RegExp A name (js ''i'')) (\<lambda>r.
           and_then (locator_fill A this (GetByPlaceholder r) v options) (\<lambda>_.
           logger_pass A (js ''Filled password field with placeholder''))))
          (\<lambda>fallbackError.
           and_then
             (logger_error A (js ''Failed to fill password field "'' @ name @ js ''"'')
                fallbackError)
             (\<lambda>_.
           throw fallbackError)))\<close>

text \<open>
  The \<^verbatim>\<open>switch\<close> on the locator type that \<^verbatim>\<open>isVisible\<close> and
  \<^verbatim>\<open>waitForVisibility\<close> both contain, with its throwing \<^verbatim>\<open>default\<close>.
\<close>

definition locator_of_type ::
  "('w, 'h, 'e) automation \<Rightarrow> js_string \<Rightarrow> js_string \<Rightarrow> (locator, 'w, 'h, 'e) action" where
  "locator_of_type A locatorType locatorValue =
     (if locatorType = js ''role'' then return_ok (GetByRole locatorValue None)
      else if locatorType = js ''text'' then
        and_then (new_RegExp A locatorValue (js ''i'')) (\<lambda>r. return_ok (GetByText r))
      else if locatorType = js ''testId'' then return_ok (GetByTestId locatorValue)
      else throw (Error (js ''Unknown locator type: '' @ locatorType)))"

definition BasePage_isVisible ::
  "('w, 'h, 'e) automation \<Rightarrow> 'h page_object \<Rightarrow> js_string \<Rightarrow> js_string
     \<Rightarrow> (bool, 'w, 'h, 'e) action" where
  "BasePage_isVisible A this locatorType locatorValue =
     try_catch
       (and_then (locator_of_type A locatorType locatorValue) (\<lambda>locator.
        and_then (locator_isVisible A this locator [(''timeout'', JNum TIMEOUTS_SHORT)])
          (\<lambda>isVisible.
        and_then
          (logger_debug A
             (js ''Element visibility check ['' @ locatorType @ js '': '' @ locatorValue
              @ js '']: '' @ show_bool isVisible))
          (\<lambda>_.
        return_ok isVisible))))
       (\<lambda>error.
        and_then (logger_debug A (js ''Element not visible: '' @ locatorValue)) (\<lambda>_.
        return_ok False))"

text \<open>The \<^verbatim>\<open>timeout\<close> parameter defaults to the element tier when it is not passed.\<close>

definition BasePage_waitForVisibility ::
  "('w, 'h, 'e) automation \<Rightarrow> 'h page_object \<Rightarrow> js_string \<Rightarrow> js_string \<Rightarrow> js_value
     \<Rightarrow> (unit, 'w, 'h, 'e) action" where
  "BasePage_waitForVisibility A this locatorType locatorValue timeout_arg =
     (let timeout = (if timeout_arg = JUndefined then JNum TIMEOUTS_ELEMENT else timeout_arg) in
      try_catch
        (and_then (locator_of_type A locatorType locatorValue) (\<lambda>locator.
         and_then
           (locator_waitFor A this locator
              [(''state'', JStr (js ''visible'')), (''timeout'', timeout)])
           (\<lambda>_.
         logger_pass A (js ''Element became visible: '' @ locatorValue))))
        (\<lambda>error.
         and_then
           (logger_error A (js ''Element did not become visible: '' @ locatorValue) error)
           (\<lambda>_.
         throw error)))"

text \<open>\<^verbatim>\<open>delay(ms)\<close>: a timer that always fires; the browser goes on meanwhile.\<close>

definition BasePage_delay ::
  "('w, 'h, 'e) automation \<Rightarrow> nat \<Rightarrow> (unit, 'w, 'h, 'e) action" where
  "BasePage_delay A ms s =
     (Inr (), s\<lparr>world := set_timeout A ms (world s), calls := calls s @ [CallSetTimeout ms]\<rparr>)"

section \<open>LoginPage (src/pages/LoginPage.js)\<close>

definition new_LoginPage ::
  "('w, 'h, 'e) automation \<Rightarrow> 'h page_arg \<Rightarrow> ('h page_object, 'w, 'h, 'e) action" where
  "new_LoginPage A arg =
     and_then (new_BasePage arg) (\<lambda>this.
     and_then (logger_info A (js ''LoginPage initialized'')) (\<lambda>_.
     return_ok (this\<lparr>cls := LoginPageClass\<rparr>)))"

definition LoginPage_navigateToLogin ::
  "('w, 'h, 'e) automation \<Rightarrow> 'h page_object \<Rightarrow> (unit, 'w, 'h, 'e) action" where
  "LoginPage_navigateToLogin A this =
     try_catch
       (and_then (BasePage_goto A this (BASE_URL A) []) (\<lambda>_.
        logger_pass A (js ''Navigated to login page'')))
       (\<lambda>error.
        and_then (logger_error A (js ''Failed to navigate to login page'') error) (\<lambda>_.
        throw error))"

definition getEmailField :: locator where
  "getEmailField = GetByPlaceholder (RegExp (js ''email|e-?mail'') (js ''i''))"

definition getPasswordField :: locator where
  "getPasswordField = GetByPlaceholder (RegExp (js ''password'') (js ''i''))"

definition getLoginButton :: locator where
  "getLoginButton =
     GetByRole (js ''button'')
       (Some [(''name'', JRegExp (RegExp (js ''sign in|login|submit'') (js ''i'')))])"

definition LoginPage_enterEmail ::
  "('w, 'h, 'e) automation \<Rightarrow> 'h page_object \<Rightarrow> js_string \<Rightarrow> (unit, 'w, 'h, 'e) action" where
  "LoginPage_enterEmail A this email =
     try_catch
       (and_then
          (locator_fill A this getEmailField email [(''timeout'', JNum TIMEOUTS_ELEMENT)])
          (\<lambda>_.
        logger_pass A (js ''Entered email: '' @ email)))
       (\<lambda>error.
        and_then (logger_error A (js ''Failed to enter email'') error) (\<lambda>_.
        throw error))"

definition LoginPage_enterPassword ::
  "('w, 'h, 'e) automation \<Rightarrow> 'h page_object \<Rightarrow> js_string \<Rightarrow> (unit, 'w, 'h, 'e) action" where
  "LoginPage_enterPassword A this password =
     try_catch
       (and_then
          (locator_fill A this getPasswordField password
             [(''timeout'', JNum TIMEOUTS_ELEMENT)])
          (\<lambda>_.
        logger_pass A (js ''Entered password'')))
       (\<lambda>error.
        and_then (logger_error A (js ''Failed to enter password'') error) (\<lambda>_.
        throw error))"

definition LoginPage_clickLoginButton ::
  "('w, 'h, 'e) automation \<Rightarrow> 'h page_object \<Rightarrow> (unit, 'w, 'h, 'e) action" where
  "LoginPage_clickLoginButton A this =
     try_catch
       (and_then
          (locator_click A this getLoginButton [(''timeout'', JNum TIMEOUTS_ELEMENT)])
          (\<lambda>_.
        and_then (logger_pass A (js ''Clicked login button'')) (\<lambda>_.
        BasePage_delay A DELAYS_MEDIUM_DELAY)))
       (\<lambda>error.
        and_then (logger_error A (js ''Failed to click login button'') error) (\<lambda>_.
        throw error))"

definition LoginPage_login ::
  "('w, 'h, 'e) automation \<Rightarrow> 'h page_object \<Rightarrow> js_string \<Rightarrow> js_string
     \<Rightarrow> (unit, 'w, 'h, 'e) action" where
  "LoginPage_login A this email password =
     try_catch
       (and_then (logger_info A (js ''Starting login process'')) (\<lambda>_.
        and_then (LoginPage_enterEmail A this email) (\<lambda>_.
        and_then (LoginPage_enterPassword A this password) (\<lambda>_.
        and_then (LoginPage_clickLoginButton A this) (\<lambda>_.
        logger_pass A (js ''Login completed successfully''))))))
       (\<lambda>error.
        and_then (logger_error A (js ''Login process failed'') error) (\<lambda>_.
        throw error))"

definition errorElement :: locator where
  \<open>errorElement =
     First (Locator (js ''[role="alert"], .error, .error-message, [class*="error"]''))\<close>

text \<open>
  A \<^verbatim>\<open>null\<close> text content prints as \<^verbatim>\<open>null\<close> in the warning and is returned as it is.
\<close>

definition show_text :: "js_string option \<Rightarrow> js_string" where
  "show_text t = (case t of None \<Rightarrow> js ''null'' | Some s \<Rightarrow> s)"

definition LoginPage_getErrorMessage ::
  "('w, 'h, 'e) automation \<Rightarrow> 'h page_object \<Rightarrow> (js_string option, 'w, 'h, 'e) action" where
  "LoginPage_getErrorMessage A this =
     try_catch
       (and_then
          (isVisible_or_false A this errorElement [(''timeout'', JNum TIMEOUTS_SHORT)])
          (\<lambda>isVisible.
        if isVisible then
          and_then (locator_textContent A this errorElement) (\<lambda>errorText.
          and_then (logger_warn A (js ''Error message found: '' @ show_text errorText)) (\<lambda>_.
          return_ok errorText))
        else return_ok None))
       (\<lambda>error.
        and_then (logger_debug A (js ''No error message found'')) (\<lambda>_.
        return_ok None))"

definition LoginPage_isErrorDisplayed ::
  "('w, 'h, 'e) automation \<Rightarrow> 'h page_object \<Rightarrow> (bool, 'w, 'h, 'e) action" where
  "LoginPage_isErrorDisplayed A this =
     try_catch
       (and_then (LoginPage_getErrorMessage A this) (\<lambda>errorMessage.
        return_ok
          (case errorMessage of
             None \<Rightarrow> False
           | Some m \<Rightarrow> length (js_trim m) > 0)))
       (\<lambda>error.
        and_then (logger_debug A (js ''Error checking for error message'')) (\<lambda>_.
        return_ok False))"

definition LoginPage_isLoginFormDisplayed ::
  "('w, 'h, 'e) automation \<Rightarrow> 'h page_object \<Rightarrow> (bool, 'w, 'h, 'e) action" where
  "LoginPage_isLoginFormDisplayed A this =
     try_catch
       (and_then
          (isVisible_or_false A this getEmailField [(''timeout'', JNum TIMEOUTS_SHORT)])
          (\<lambda>emailVisible.
        and_then
          (isVisible_or_false A this getPasswordField [(''timeout'', JNum TIMEOUTS_SHORT)])
          (\<lambda>passwordVisible.
        and_then
          (isVisible_or_false A this getLoginButton [(''timeout'', JNum TIMEOUTS_SHORT)])
          (\<lambda>buttonVisible.
        let isDisplayed = (emailVisible \<and> passwordVisible \<and> buttonVisible) in
        and_then
          (if isDisplayed then logger_pass A (js ''Login form is displayed'')
           else logger_warn A (js ''Login form is NOT fully displayed''))
          (\<lambda>_.
        return_ok isDisplayed)))))
       (\<lambda>error.
        and_then (logger_error A (js ''Failed to validate login form'') error) (\<lambda>_.
        return_ok False))"

definition LoginPage_verifyLoginSuccess ::
  "('w, 'h, 'e) automation \<Rightarrow> 'h page_object \<Rightarrow> (bool, 'w, 'h, 'e) action" where
  "LoginPage_verifyLoginSuccess A this =
     try_catch
       (and_then
          (isVisible_or_false A this getEmailField [(''timeout'', JNum TIMEOUTS_SHORT)])
          (\<lambda>isLoginPageStillVisible.
        if \<not> isLoginPageStillVisible then
          and_then
            (logger_pass A
               (js ''Successfully verified login - login form is no longer visible''))
            (\<lambda>_.
          return_ok True)
        else
          and_then (logger_warn A (js ''Login verification failed - still on login page''))
            (\<lambda>_.
          return_ok False)))
       (\<lambda>error.
        and_then (logger_error A (js ''Failed to verify login success'') error) (\<lambda>_.
        return_ok False))"

section \<open>HomePage (src/pages/HomePage.js)\<close>

definition new_HomePage ::
  "('w, 'h, 'e) automation \<Rightarrow> 'h page_arg \<Rightarrow> ('h page_object, 'w, 'h, 'e) action" where
  "new_HomePage A arg =
     and_then (new_BasePage arg) (\<lambda>this.
     and_then (logger_info A (js ''HomePage initialized'')) (\<lambda>_.
     return_ok (this\<lparr>cls := HomePageClass\<rparr>)))"

definition getProductGrid :: locator where
  \<open>getProductGrid =
     First (Locator (js ''[class*="product"], [class*="grid"], [role="main"]''))\<close>

definition getAllProducts :: locator where
  \<open>getAllProducts =
     Locator (js ''[class*="product-item"], [class*="product"], li[role="option"], article'')\<close>

definition getFeaturedSection :: locator where
  \<open>getFeaturedSection =
     First (Locator (js ''[class*="featured"], [class*="banner"], [class*="hero"]''))\<close>

definition noResultsLocator :: locator where
  "noResultsLocator = GetByText (RegExp (js ''no results|no products|nothing found'') (js ''i''))"

definition addToCartButton :: locator where
  "addToCartButton =
     GetByRole (js ''button'')
       (Some [(''name'', JRegExp (RegExp (js ''add to cart|add to bag|add'') (js ''i'')))])"

definition HomePage_getProductCount ::
  "('w, 'h, 'e) automation \<Rightarrow> 'h page_object \<Rightarrow> (nat, 'w, 'h, 'e) action" where
  "HomePage_getProductCount A this =
     try_catch
       (and_then (locator_count A this getAllProducts) (\<lambda>count.
        and_then (logger_debug A (js ''Product count: '' @ show_nat count)) (\<lambda>_.
        return_ok count)))
       (\<lambda>error.
        and_then (logger_error A (js ''Failed to get product count'') error) (\<lambda>_.
        return_ok 0))"

definition HomePage_clickProduct ::
  "('w, 'h, 'e) automation \<Rightarrow> 'h page_object \<Rightarrow> js_string \<Rightarrow> (unit, 'w, 'h, 'e) action" where
  "HomePage_clickProduct A this productName =
     try_catch
       (and_then (logger_info A (js ''Clicking product: '' @ productName)) (\<lambda>_.
        and_then (new_RegExp A productName (js ''i'')) (\<lambda>r.
        and_then
          (locator_click A this (First (GetByText r)) [(''timeout'', JNum TIMEOUTS_ELEMENT)])
          (\<lambda>_.
        and_then (BasePage_delay A DELAYS_MEDIUM_DELAY) (\<lambda>_.
        logger_pass A (js ''Clicked product: '' @ productName))))))
       (\<lambda>error.
        and_then (logger_error A (js ''Failed to click product: '' @ productName) error) (\<lambda>_.
        throw error))"

definition HomePage_addProductToCart ::
  "('w, 'h, 'e) automation \<Rightarrow> 'h page_object \<Rightarrow> js_string \<Rightarrow> (unit, 'w, 'h, 'e) action" where
  "HomePage_addProductToCart A this productName =
     try_catch
       (and_then (logger_info A (js ''Adding product to cart: '' @ productName)) (\<lambda>_.
        and_then (HomePage_clickProduct A this productName) (\<lambda>_.
        and_then
          (isVisible_or_false A this addToCartButton [(''timeout'', JNum TIMEOUTS_ELEMENT)])
          (\<lambda>buttonExists.
        if buttonExists then
          and_then
            (locator_click A this addToCartButton [(''timeout'', JNum TIMEOUTS_ELEMENT)])
            (\<lambda>_.
          and_then (BasePage_delay A DELAYS_MEDIUM_DELAY) (\<lambda>_.
          logger_pass A (js ''Added product to cart: '' @ productName)))
        else logger_warn A (js ''Add to cart button not found for: '' @ productName)))))
       (\<lambda>error.
        and_then (logger_error A (js ''Failed to add product to cart: '' @ productName) error)
          (\<lambda>_.
        throw error))"

definition cartBadge :: locator where
  \<open>cartBadge =
     First (Locator (js ''[class*="cart-count"], [class*="badge"], span:has-text(/''
                     @ 0x5C # js ''d+/)''))\<close>

text \<open>\<^verbatim>\<open>\D\<close> matches every code unit but the digits 0 to 9.\<close>

definition is_ascii_digit :: "16 word \<Rightarrow> bool" where
  "is_ascii_digit c = (0x30 \<le> c \<and> c \<le> 0x39)"

text \<open>
  \<^verbatim>\<open>count?.replace(/\D/g, '') || '0'\<close>: \<^verbatim>\<open>undefined\<close> for a \<^verbatim>\<open>null\<close> text and the
  string of its digits otherwise; \<^verbatim>\<open>undefined\<close> and the empty string are both falsy.
\<close>

definition HomePage_getCartItemCount ::
  "('w, 'h, 'e) automation \<Rightarrow> 'h page_object \<Rightarrow> (js_value, 'w, 'h, 'e) action" where
  "HomePage_getCartItemCount A this =
     try_catch
       (and_then
          (isVisible_or_false A this cartBadge [(''timeout'', JNum TIMEOUTS_SHORT)])
          (\<lambda>isVisible.
        if isVisible then
          and_then (locator_textContent A this cartBadge) (\<lambda>count.
          let digits = (case count of None \<Rightarrow> [] | Some c \<Rightarrow> filter (\<lambda>x. is_ascii_digit x) c);
              numCount = js_parseInt A (if digits = [] then js ''0'' else digits)
          in
          and_then (logger_debug A (js ''Cart item count: '' @ number_string A numCount)) (\<lambda>_.
          return_ok numCount))
        else return_ok (JNum 0)))
       (\<lambda>error.
        and_then (logger_debug A (js ''Failed to get cart item count'')) (\<lambda>_.
        return_ok (JNum 0)))"

definition HomePage_isProductGridDisplayed ::
  "('w, 'h, 'e) automation \<Rightarrow> 'h page_object \<Rightarrow> (bool, 'w, 'h, 'e) action" where
  "HomePage_isProductGridDisplayed A this =
     try_catch
       (and_then
          (isVisible_or_false A this getProductGrid [(''timeout'', JNum TIMEOUTS_SHORT)])
          (\<lambda>isVisible.
        and_then
          (if isVisible then logger_pass A (js ''Product grid is displayed'')
           else logger_warn A (js ''Product grid is NOT displayed''))
          (\<lambda>_.
        return_ok isVisible)))
       (\<lambda>error.
        and_then (logger_error A (js ''Failed to verify product grid'') error) (\<lambda>_.
        return_ok False))"

definition HomePage_isNoResultsDisplayed ::
  "('w, 'h, 'e) automation \<Rightarrow> 'h page_object \<Rightarrow> (bool, 'w, 'h, 'e) action" where
  "HomePage_isNoResultsDisplayed A this =
     try_catch
       (and_then
          (isVisible_or_false A this noResultsLocator [(''timeout'', JNum TIMEOUTS_SHORT)])
          (\<lambda>isVisible.
        and_then
          (if isVisible then logger_pass A (js ''No results message is displayed'')
           else return_ok ())
          (\<lambda>_.
        return_ok isVisible)))
       (\<lambda>error.
        and_then (logger_debug A (js ''No results message not found'')) (\<lambda>_.
        return_ok False))"

definition HomePage_isFeaturedSectionDisplayed ::
  "('w, 'h, 'e) automation \<Rightarrow> 'h page_object \<Rightarrow> (bool, 'w, 'h, 'e) action" where
  "HomePage_isFeaturedSectionDisplayed A this =
     try_catch
       (and_then
          (isVisible_or_false A this getFeaturedSection [(''timeout'', JNum TIMEOUTS_SHORT)])
          (\<lambda>isVisible.
        and_then
          (if isVisible then logger_pass A (js ''Featured section is displayed'')
           else return_ok ())
          (\<lambda>_.
        return_ok isVisible)))
       (\<lambda>error.
        and_then (logger_debug A (js ''Featured section not found'')) (\<lambda>_.
        return_ok False))"

section \<open>The authenticatedPage fixture (src/fixtures/testFixtures.js)\<close>

record 'h pageObjects =
  bundle_page :: "'h page_arg"
  homePage :: "'h page_object"
  loginPage :: "'h page_object"

text \<open>
  The body of the fixture's \<^verbatim>\<open>try\<close> block up to the object it hands to \<^verbatim>\<open>use\<close>.
\<close>

definition authenticatedPage_setup ::
  "('w, 'h, 'e) automation \<Rightarrow> 'h page_arg \<Rightarrow> ('h pageObjects, 'w, 'h, 'e) action" where
  "authenticatedPage_setup A pg =
     and_then (new_LoginPage A pg) (\<lambda>loginPage.
     and_then (new_HomePage A pg) (\<lambda>homePage.
     and_then (LoginPage_navigateToLogin A loginPage) (\<lambda>_.
     and_then (LoginPage_isLoginFormDisplayed A loginPage) (\<lambda>isLoginFormVisible.
     and_then
       (if isLoginFormVisible then
          and_then (logger_info A (js ''Login form visible - performing login'')) (\<lambda>_.
          and_then
            (LoginPage_login A loginPage (CREDENTIALS_email A) (CREDENTIALS_password A))
            (\<lambda>_.
          and_then (LoginPage_verifyLoginSuccess A loginPage) (\<lambda>loginSuccess.
          if \<not> loginSuccess then throw (Error (js ''Login verification failed''))
          else logger_pass A (js ''Successfully authenticated''))))
        else logger_info A (js ''Already authenticated - skipping login''))
       (\<lambda>_.
     return_ok \<lparr>bundle_page = pg, homePage = homePage, loginPage = loginPage\<rparr>)))))"

text \<open>
  The fixture: \<open>use\<close> is the test runner's callback, which runs the test on the object it
  is given; it sits inside the same \<^verbatim>\<open>try\<close> block as the setup.
\<close>

definition authenticatedPage ::
  "('w, 'h, 'e) automation \<Rightarrow> 'h page_arg \<Rightarrow> ('h pageObjects \<Rightarrow> (unit, 'w, 'h, 'e) action)
     \<Rightarrow> (unit, 'w, 'h, 'e) action" where
  "authenticatedPage A pg use =
     and_then (logger_section (js ''SETTING UP AUTHENTICATED PAGE'')) (\<lambda>_.
     try_catch
       (and_then (authenticatedPage_setup A pg) (\<lambda>pageObjects.
        and_then (use pageObjects) (\<lambda>_.
        logger_info A (js ''Authenticated page fixture teardown completed''))))
       (\<lambda>error.
        and_then (logger_error A (js ''Failed to set up authenticated page'') error) (\<lambda>_.
        throw error)))"

section \<open>What the library reports about an absent element\<close>

text \<open>
  An element is absent from the page when the library does not report it visible (it
  answers \<^verbatim>\<open>false\<close>, or throws, for instance on a timeout), and when counting its
  matches gives zero or throws.
\<close>

definition not_visible ::
  "('w, 'h, 'e) automation \<Rightarrow> 'h page_object \<Rightarrow> locator \<Rightarrow> js_object \<Rightarrow> ('w, 'h) state
     \<Rightarrow> bool" where
  "not_visible A this l opts s = (fst (lib_isVisible A (page this) l opts (world s)) \<noteq> Inr True)"

definition no_match ::
  "('w, 'h, 'e) automation \<Rightarrow> 'h page_object \<Rightarrow> locator \<Rightarrow> ('w, 'h) state \<Rightarrow> bool" where
  "no_match A this l s =
     (case fst (lib_count A (page this) l (world s)) of Inl e \<Rightarrow> True | Inr n \<Rightarrow> n = 0)"

section \<open>A small browser to run the page objects on\<close>

text \<open>
  A concrete automation library, for evaluating the definitions above on explicit pages: a
  page shows a list of elements (by the locator that finds them), some with a text; a click
  or fill on an element that is not shown times out; a click may replace what is shown.
  The engine rejects the pattern \<^verbatim>\<open>(\<close>, the clock stands at 12:00:00, errors carry a
  message and no stack, and numbers are parsed and printed in decimal.
\<close>

datatype demo_failure = TimeoutError locator | SyntaxError js_string

record demo_browser =
  shown :: "locator list"
  texts :: "(locator \<times> js_string) list"
  typed :: "(locator \<times> js_string) list"
  after_click :: "(locator \<times> locator list) list"

definition demo :: "(demo_browser, nat, demo_failure) automation" where
  "demo = \<lparr>
     page_goto = (\<lambda>h url opts w. (Inr None, w)),
     lib_click = (\<lambda>h l opts w.
        if l \<in> set (shown w) then
          (Inr (), (case map_of (after_click w) l of None \<Rightarrow> w | Some ls \<Rightarrow> w\<lparr>shown := ls\<rparr>))
        else (Inl (TimeoutError l), w)),
     lib_fill = (\<lambda>h l v opts w.
        if l \<in> set (shown w) then (Inr (), w\<lparr>typed := (l, v) # typed w\<rparr>)
        else (Inl (TimeoutError l), w)),
     lib_isVisible = (\<lambda>h l opts w. (Inr (l \<in> set (shown w)), w)),
     lib_waitFor = (\<lambda>h l opts w.
        if l \<in> set (shown w) then (Inr (), w) else (Inl (TimeoutError l), w)),
     lib_count = (\<lambda>h l w. (Inr (length (filter (\<lambda>x. x = l) (shown w))), w)),
     lib_textContent = (\<lambda>h l w.
        if l \<in> set (shown w) then (Inr (map_of (texts w) l), w) else (Inl (TimeoutError l), w)),
     set_timeout = (\<lambda>ms w. w),
     regexp_syntax_error = (\<lambda>pattern flags. if pattern = js ''('' then Some (SyntaxError pattern) else None),
     process_env = (\<lambda>name. None),
     clock_time = (\<lambda>w. js ''12:00:00''),
     error_stack = (\<lambda>error. JUndefined),
     thrown_message = (\<lambda>x. JStr (js ''Timeout exceeded'')),
     thrown_truthy = (\<lambda>x. True),
     js_parseInt = (\<lambda>digits. JNum (int (foldl (\<lambda>n c. 10 * n + (unat c - 48)) 0 digits))),
     number_string = (\<lambda>n. case n of JNum k \<Rightarrow> show_nat (nat k) | _ \<Rightarrow> js ''NaN'')
   \<rparr>"

definition blank_page :: demo_browser where
  "blank_page = \<lparr>shown = [], texts = [], typed = [], after_click = []\<rparr>"

definition start :: "demo_browser \<Rightarrow> (demo_browser, nat) state" where
  "start w = \<lparr>world = w, calls = [], console = []\<rparr>"

definition demo_BasePage :: "nat page_object" where
  "demo_BasePage = \<lparr>page = 7, cls = BasePageClass\<rparr>"

definition placeholder_only :: demo_browser where
  "placeholder_only =
     \<lparr>shown = [GetByPlaceholder (RegExp (js ''Password'') (js ''i''))], texts = [], typed = [],
      after_click = []\<rparr>"

definition login_form :: demo_browser where
  "login_form =
     \<lparr>shown = [getEmailField, getPasswordField, getLoginButton], texts = [], typed = [],
      after_click = [(getLoginButton, [])]\<rparr>"

definition no_password_field :: demo_browser where
  "no_password_field =
     \<lparr>shown = [getEmailField, getLoginButton], texts = [], typed = [],
      after_click = [(getLoginButton, [])]\<rparr>"

definition blank_error :: demo_browser where
  "blank_error = \<lparr>shown = [errorElement], texts = [(errorElement, js ''  '')], typed = [],
                   after_click = []\<rparr>"

definition login_error :: demo_browser where
  "login_error =
     \<lparr>shown = [errorElement], texts = [(errorElement, js '' Invalid login '')], typed = [],
      after_click = []\<rparr>"

definition product_without_button :: demo_browser where
  "product_without_button =
     \<lparr>shown = [First (GetByText (RegExp (js ''shirt'') (js ''i'')))], texts = [], typed = [],
      after_click = []\<rparr>"

definition sticky_login_form :: demo_browser where
  "sticky_login_form =
     \<lparr>shown = [getEmailField, getPasswordField, getLoginButton], texts = [], typed = [],
      after_click = []\<rparr>"

definition cart_with_badge :: demo_browser where
  "cart_with_badge =
     \<lparr>shown = [cartBadge], texts = [(cartBadge, js ''Cart (3)'')], typed = [], after_click = []\<rparr>"

definition demo_LoginPage :: "nat page_object" where
  "demo_LoginPage = \<lparr>page = 7, cls = LoginPageClass\<rparr>"

definition demo_HomePage :: "nat page_object" where
  "demo_HomePage = \<lparr>page = 7, cls = HomePageClass\<rparr>"

section \<open>Basic facts\<close>

lemmas flow_defs = return_ok_def throw_def and_then_def try_catch_def perform_def
  console_log_def console_error_def Logger_log_def logger_info_def logger_pass_def
  logger_warn_def logger_error_def logger_debug_def logger_section_def
  printed_by_error_def printed_by_section_def

lemma logger_error_run:
  "logger_error A message error s =
     (Inr (), s\<lparr>console := console s @ printed_by_error A (world s) message error\<rparr>)"
  by (simp add: logger_error_def Logger_log_def console_log_def console_error_def
        and_then_def return_ok_def printed_by_error_def)

lemma logger_section_run:
  "logger_section section_name s =
     (Inr (), s\<lparr>console := console s @ printed_by_section section_name\<rparr>)"
  by (simp add: logger_section_def console_log_def and_then_def printed_by_section_def Let_def)

lemma locator_of_type_unknown:
  assumes "locatorType \<noteq> js ''role''" "locatorType \<noteq> js ''text''" "locatorType \<noteq> js ''testId''"
  shows "locator_of_type A locatorType locatorValue s
           = (Inl (Error (js ''Unknown locator type: '' @ locatorType)), s)"
  using assms by (simp add: locator_of_type_def throw_def)

lemma isVisible_unknown_type:
  assumes "locatorType \<noteq> js ''role''" "locatorType \<noteq> js ''text''" "locatorType \<noteq> js ''testId''"
  shows "BasePage_isVisible A this locatorType locatorValue s
           = (Inr False,
              s\<lparr>console := console s @
                 [ConsoleLog (formattedMessage A (world s) (js ''DEBUG'')
                    (js ''Element not visible: '' @ locatorValue) colors_MAGENTA)]\<rparr>)"
  by (simp add: BasePage_isVisible_def flow_defs locator_of_type_unknown[OF assms])

section \<open>Unknown locator types\<close>

text \<open>
  C1 (as the code has it). The claim reads: \<^verbatim>\<open>isVisible\<close> with a locator type other than
  role, text or testId fails with an "Unknown locator type" error instead of returning a
  boolean. The error is thrown inside the method's own \<^verbatim>\<open>try\<close> block and its
  \<^verbatim>\<open>catch\<close> swallows it: for every such locator type the call returns \<^verbatim>\<open>false\<close>,
  makes no call on the page and prints one line through \<^verbatim>\<open>logger.debug\<close>, which says
  that the element is not visible and does not name the error.
\<close>

theorem isVisible_unknown_type_returns_false:
  assumes "locatorType \<notin> {js ''role'', js ''text'', js ''testId''}"
  shows "BasePage_isVisible A this locatorType locatorValue s
           = (Inr False,
              s\<lparr>console := console s @
                 [ConsoleLog (formattedMessage A (world s) (js ''DEBUG'')
                    (js ''Element not visible: '' @ locatorValue) colors_MAGENTA)]\<rparr>)"
  using assms by (intro isVisible_unknown_type) auto

theorem isVisible_unknown_type_counterexample:
  "js ''css'' \<notin> {js ''role'', js ''text'', js ''testId''}
   \<and> fst (BasePage_isVisible demo demo_BasePage (js ''css'') (js ''#cart'') (start blank_page))
       = Inr False"
  by (simp add: isVisible_unknown_type js_def)

theorem isVisible_unknown_type_returns_false_witness:
  "js ''css'' \<notin> {js ''role'', js ''text'', js ''testId''}
   \<and> BasePage_isVisible demo demo_BasePage (js ''css'') (js ''#cart'') (start blank_page)
       = (Inr False,
          \<lparr>world = blank_page, calls = [],
           console =
             [ConsoleLog
                (0x1B # js ''[35m[12:00:00] [DEBUG] Element not visible: #cart'' @ 0x1B # js ''[0m'')]\<rparr>)"
proof -
  have h: "js ''css'' \<notin> {js ''role'', js ''text'', js ''testId''}"
    by (simp add: js_def)
  show ?thesis
    using h isVisible_unknown_type_returns_false
              [OF h, of demo demo_BasePage "js ''#cart''" "start blank_page"]
    by (simp add: start_def js_def formattedMessage_def getTimestamp_def demo_def
          colors_MAGENTA_def colors_RESET_def)
qed

lemma waitForVisibility_unknown_type:
  assumes "locatorType \<noteq> js ''role''" "locatorType \<noteq> js ''text''" "locatorType \<noteq> js ''testId''"
  shows "BasePage_waitForVisibility A this locatorType locatorValue timeout s
           = (Inl (Error (js ''Unknown locator type: '' @ locatorType)),
              s\<lparr>console := console s @
                 printed_by_error A (world s)
                   (js ''Element did not become visible: '' @ locatorValue)
                   (Error (js ''Unknown locator type: '' @ locatorType))\<rparr>)"
  by (simp add: BasePage_waitForVisibility_def flow_defs Let_def error_truthy_def
        locator_of_type_unknown[OF assms])

text \<open>
  C10. \<^verbatim>\<open>waitForVisibility\<close> with a locator type other than role, text or testId raises
  the "Unknown locator type" error to its caller, after passing it to \<^verbatim>\<open>logger.error\<close>
  (which prints the error line and then the error's stack or message), and makes no call on
  the page; \<^verbatim>\<open>isVisible\<close> on the same arguments returns \<^verbatim>\<open>false\<close> instead of
  raising.
\<close>

theorem unknown_type_waitForVisibility_raises_isVisible_does_not:
  assumes "locatorType \<notin> {js ''role'', js ''text'', js ''testId''}"
  shows "BasePage_waitForVisibility A this locatorType locatorValue timeout s
           = (Inl (Error (js ''Unknown locator type: '' @ locatorType)),
              s\<lparr>console := console s @
                 [ConsoleLog (formattedMessage A (world s) (js ''ERROR'')
                    (js ''Element did not become visible: '' @ locatorValue) colors_RED),
                  ConsoleError
                    [JStr colors_RED,
                     js_or (error_stack A (Error (js ''Unknown locator type: '' @ locatorType)))
                       (JStr (js ''Unknown locator type: '' @ locatorType)),
                     JStr colors_RESET]]\<rparr>)
         \<and> fst (BasePage_isVisible A this locatorType locatorValue s) = Inr False"
  using assms
  by (simp add: waitForVisibility_unknown_type isVisible_unknown_type printed_by_error_def
        error_truthy_def error_message_def)

theorem unknown_type_waitForVisibility_raises_isVisible_does_not_witness:
  "js ''xpath'' \<notin> {js ''role'', js ''text'', js ''testId''}
   \<and> BasePage_waitForVisibility demo demo_BasePage (js ''xpath'') (js ''//a'') JUndefined
         (start blank_page)
       = (Inl (Error (js ''Unknown locator type: xpath'')),
          \<lparr>world = blank_page, calls = [],
           console =
             [ConsoleLog
                (0x1B # js ''[31m[12:00:00] [ERROR] Element did not become visible: //a''
                 @ 0x1B # js ''[0m''),
              ConsoleError
                [JStr (0x1B # js ''[31m''), JStr (js ''Unknown locator type: xpath''),
                 JStr (0x1B # js ''[0m'')]]\<rparr>)
   \<and> fst (BasePage_isVisible demo demo_BasePage (js ''xpath'') (js ''//a'') (start blank_page))
       = Inr False"
proof -
  have h: "js ''xpath'' \<notin> {js ''role'', js ''text'', js ''testId''}"
    by (simp add: js_def)
  show ?thesis
    using h unknown_type_waitForVisibility_raises_isVisible_does_not
            [OF h, of demo demo_BasePage "js ''//a''" JUndefined "start blank_page"]
    by (simp add: start_def js_def formattedMessage_def getTimestamp_def demo_def js_or_def
          colors_RED_def colors_RESET_def)
qed

section \<open>Construction\<close>

lemma new_BasePage_Inr:
  "new_BasePage arg s = (Inr this, s')
   \<Longrightarrow> arg = PageHandle (page this) \<and> cls this = BasePageClass \<and> s' = s"
  by (cases arg) (auto simp: flow_defs)

lemma new_LoginPage_Inr:
  "new_LoginPage A arg s = (Inr this, s') \<Longrightarrow> arg = PageHandle (page this)"
  by (cases arg) (auto simp: new_LoginPage_def flow_defs)

lemma new_HomePage_Inr:
  "new_HomePage A arg s = (Inr this, s') \<Longrightarrow> arg = PageHandle (page this)"
  by (cases arg) (auto simp: new_HomePage_def flow_defs)

text \<open>
  C3. Constructing a BasePage with a \<^verbatim>\<open>null\<close> or missing page handle raises the
  initialization error; constructing it with a page handle succeeds and stores exactly that
  handle; whenever construction succeeds, of a BasePage or of the derived LoginPage and
  HomePage, the argument was a page handle and it is the one stored.
\<close>

theorem BasePage_requires_page_handle:
  "new_BasePage Missing s = (Inl (Error (js ''Page object is required to initialize BasePage'')), s)
   \<and> new_BasePage Null s = (Inl (Error (js ''Page object is required to initialize BasePage'')), s)
   \<and> new_BasePage (PageHandle h) s = (Inr \<lparr>page = h, cls = BasePageClass\<rparr>, s)
   \<and> (\<forall>arg this s'. new_BasePage arg s = (Inr this, s') \<longrightarrow> arg = PageHandle (page this))
   \<and> (\<forall>arg this s'. new_LoginPage A arg s = (Inr this, s') \<longrightarrow> arg = PageHandle (page this))
   \<and> (\<forall>arg this s'. new_HomePage A arg s = (Inr this, s') \<longrightarrow> arg = PageHandle (page this))
   \<and> fst (new_LoginPage A Missing s) = Inl (Error (js ''Page object is required to initialize BasePage''))
   \<and> fst (new_LoginPage A Null s) = Inl (Error (js ''Page object is required to initialize BasePage''))
   \<and> fst (new_LoginPage A (PageHandle h) s) = Inr \<lparr>page = h, cls = LoginPageClass\<rparr>
   \<and> fst (new_HomePage A Missing s) = Inl (Error (js ''Page object is required to initialize BasePage''))
   \<and> fst (new_HomePage A Null s) = Inl (Error (js ''Page object is required to initialize BasePage''))
   \<and> fst (new_HomePage A (PageHandle h) s) = Inr \<lparr>page = h, cls = HomePageClass\<rparr>"
proof (intro conjI allI impI)
  show "\<And>arg this s'. new_BasePage arg s = (Inr this, s') \<Longrightarrow> arg = PageHandle (page this)"
    by (simp add: new_BasePage_Inr)
  show "\<And>arg this s'. new_LoginPage A arg s = (Inr this, s') \<Longrightarrow> arg = PageHandle (page this)"
    by (rule new_LoginPage_Inr)
  show "\<And>arg this s'. new_HomePage A arg s = (Inr this, s') \<Longrightarrow> arg = PageHandle (page this)"
    by (rule new_HomePage_Inr)
qed (simp_all add: new_LoginPage_def new_HomePage_def flow_defs)

theorem BasePage_requires_page_handle_witness:
  "new_BasePage (Null :: nat page_arg) (start blank_page)
     = (Inl (Error (js ''Page object is required to initialize BasePage'')), start blank_page)
   \<and> new_BasePage (PageHandle (7::nat)) (start blank_page) = (Inr demo_BasePage, start blank_page)
   \<and> PageHandle (7::nat) = PageHandle (page demo_BasePage)"
proof -
  have run: "new_BasePage (PageHandle (7::nat)) (start blank_page)
               = (Inr demo_BasePage, start blank_page)"
    by (simp add: demo_BasePage_def return_ok_def)
  show ?thesis
    using run BasePage_requires_page_handle [of "start blank_page" "7::nat" demo]
    by (auto simp: demo_BasePage_def)
qed

section \<open>Tolerant probes\<close>

lemma isVisible_or_false_total:
  "\<exists>b s'. isVisible_or_false A this l opts s = (Inr b, s')"
  by (auto simp: isVisible_or_false_def locator_isVisible_def flow_defs split: prod.splits sum.splits)

lemma isVisible_or_false_absent:
  "not_visible A this l opts s \<Longrightarrow> fst (isVisible_or_false A this l opts s) = Inr False"
  by (auto simp: not_visible_def isVisible_or_false_def locator_isVisible_def flow_defs
           split: prod.splits sum.splits)

lemma BasePage_isVisible_total:
  "\<exists>b. fst (BasePage_isVisible A this ty v s) = Inr b"
  by (auto simp: BasePage_isVisible_def flow_defs split: prod.splits sum.splits)

lemma BasePage_isVisible_absent:
  assumes "locator_of_type A ty v s = (Inr l, s1)"
    and "not_visible A this l [(''timeout'', JNum TIMEOUTS_SHORT)] s"
  shows "fst (BasePage_isVisible A this ty v s) = Inr False"
proof -
  have "s1 = s"
    using assms(1)
    by (auto simp: locator_of_type_def new_RegExp_def flow_defs split: if_splits option.splits)
  with assms show ?thesis
    by (auto simp: BasePage_isVisible_def not_visible_def locator_isVisible_def flow_defs
             split: prod.splits sum.splits)
qed

lemma getProductCount_total:
  "\<exists>n. fst (HomePage_getProductCount A this s) = Inr n"
  by (auto simp: HomePage_getProductCount_def locator_count_def flow_defs
           split: prod.splits sum.splits)

lemma getProductCount_absent:
  "no_match A this getAllProducts s \<Longrightarrow> fst (HomePage_getProductCount A this s) = Inr 0"
  by (auto simp: HomePage_getProductCount_def no_match_def locator_count_def flow_defs
           split: prod.splits sum.splits)

lemma getErrorMessage_total:
  "\<exists>m. fst (LoginPage_getErrorMessage A this s) = Inr m"
  by (auto simp: LoginPage_getErrorMessage_def flow_defs split: prod.splits sum.splits)

lemma getErrorMessage_absent:
  assumes "not_visible A this errorElement [(''timeout'', JNum TIMEOUTS_SHORT)] s"
  shows "fst (LoginPage_getErrorMessage A this s) = Inr None"
  using isVisible_or_false_absent[OF assms] isVisible_or_false_total[of A this errorElement "[(''timeout'', JNum TIMEOUTS_SHORT)]" s]
  by (auto simp: LoginPage_getErrorMessage_def flow_defs split: prod.splits sum.splits)


lemma BasePage_isVisible_role_absent:
  "not_visible A this (GetByRole v None) [(''timeout'', JNum TIMEOUTS_SHORT)] s
   \<Longrightarrow> fst (BasePage_isVisible A this (js ''role'') v s) = Inr False"
  by (rule BasePage_isVisible_absent[where l = "GetByRole v None" and ?s1.0 = s])
     (simp_all add: locator_of_type_def return_ok_def)

lemma BasePage_isVisible_testId_absent:
  "not_visible A this (GetByTestId v) [(''timeout'', JNum TIMEOUTS_SHORT)] s
   \<Longrightarrow> fst (BasePage_isVisible A this (js ''testId'') v s) = Inr False"
  by (rule BasePage_isVisible_absent[where l = "GetByTestId v" and ?s1.0 = s])
     (simp_all add: locator_of_type_def return_ok_def js_def)

lemma BasePage_isVisible_text_absent:
  assumes "not_visible A this (GetByText (RegExp v (js ''i''))) [(''timeout'', JNum TIMEOUTS_SHORT)] s"
  shows "fst (BasePage_isVisible A this (js ''text'') v s) = Inr False"
proof (cases "regexp_syntax_error A v (js ''i'')")
  case None
  then have "locator_of_type A (js ''text'') v s = (Inr (GetByText (RegExp v (js ''i''))), s)"
    by (simp add: locator_of_type_def new_RegExp_def flow_defs js_def)
  from BasePage_isVisible_absent[OF this assms] show ?thesis .
next
  case (Some e)
  then have "locator_of_type A (js ''text'') v s = (Inl (Thrown e), s)"
    by (simp add: locator_of_type_def new_RegExp_def flow_defs js_def)
  then show ?thesis
    by (simp add: BasePage_isVisible_def flow_defs)
qed

lemma isProductGridDisplayed_total:
  "\<exists>b. fst (HomePage_isProductGridDisplayed A this s) = Inr b"
  by (auto simp: HomePage_isProductGridDisplayed_def flow_defs split: prod.splits sum.splits)

lemma isProductGridDisplayed_absent:
  assumes "not_visible A this getProductGrid [(''timeout'', JNum TIMEOUTS_SHORT)] s"
  shows "fst (HomePage_isProductGridDisplayed A this s) = Inr False"
  using isVisible_or_false_absent[OF assms]
  by (auto simp: HomePage_isProductGridDisplayed_def flow_defs split: prod.splits sum.splits)

lemma isNoResultsDisplayed_total:
  "\<exists>b. fst (HomePage_isNoResultsDisplayed A this s) = Inr b"
  by (auto simp: HomePage_isNoResultsDisplayed_def flow_defs split: prod.splits sum.splits)

lemma isNoResultsDisplayed_absent:
  assumes "not_visible A this noResultsLocator [(''timeout'', JNum TIMEOUTS_SHORT)] s"
  shows "fst (HomePage_isNoResultsDisplayed A this s) = Inr False"
  using isVisible_or_false_absent[OF assms]
  by (auto simp: HomePage_isNoResultsDisplayed_def flow_defs split: prod.splits sum.splits)

lemma isFeaturedSectionDisplayed_total:
  "\<exists>b. fst (HomePage_isFeaturedSectionDisplayed A this s) = Inr b"
  by (auto simp: HomePage_isFeaturedSectionDisplayed_def flow_defs split: prod.splits sum.splits)

lemma isFeaturedSectionDisplayed_absent:
  assumes "not_visible A this getFeaturedSection [(''timeout'', JNum TIMEOUTS_SHORT)] s"
  shows "fst (HomePage_isFeaturedSectionDisplayed A this s) = Inr False"
  using isVisible_or_false_absent[OF assms]
  by (auto simp: HomePage_isFeaturedSectionDisplayed_def flow_defs split: prod.splits sum.splits)

lemma isLoginFormDisplayed_total:
  "\<exists>b. fst (LoginPage_isLoginFormDisplayed A this s) = Inr b"
  by (auto simp: LoginPage_isLoginFormDisplayed_def flow_defs Let_def split: prod.splits sum.splits)

lemma isLoginFormDisplayed_result:
  "fst (LoginPage_isLoginFormDisplayed A this s) =
     Inr (let p1 = lib_isVisible A (page this) getEmailField
                     [(''timeout'', JNum TIMEOUTS_SHORT)] (world s);
              p2 = lib_isVisible A (page this) getPasswordField
                     [(''timeout'', JNum TIMEOUTS_SHORT)] (snd p1);
              p3 = lib_isVisible A (page this) getLoginButton
                     [(''timeout'', JNum TIMEOUTS_SHORT)] (snd p2)
          in fst p1 = Inr True \<and> fst p2 = Inr True \<and> fst p3 = Inr True)"
  by (auto simp: LoginPage_isLoginFormDisplayed_def isVisible_or_false_def locator_isVisible_def
        flow_defs Let_def split: prod.splits sum.splits)

lemma getCartItemCount_total:
  "\<exists>n. fst (HomePage_getCartItemCount A this s) = Inr n"
  by (auto simp: HomePage_getCartItemCount_def flow_defs Let_def split: prod.splits sum.splits)

lemma getCartItemCount_absent:
  assumes "not_visible A this cartBadge [(''timeout'', JNum TIMEOUTS_SHORT)] s"
  shows "fst (HomePage_getCartItemCount A this s) = Inr (JNum 0)"
  using isVisible_or_false_absent[OF assms]
  by (auto simp: HomePage_getCartItemCount_def flow_defs Let_def split: prod.splits sum.splits)

lemma blank_page_not_visible:
  "not_visible demo this l opts (start blank_page)"
  by (simp add: not_visible_def demo_def start_def blank_page_def)

lemma blank_page_no_match:
  "no_match demo this l (start blank_page)"
  by (simp add: no_match_def demo_def start_def blank_page_def)

text \<open>
  C2. The tolerant probes never raise an error to the caller, whatever the page and the
  library do: \<^verbatim>\<open>BasePage.isVisible\<close>, \<^verbatim>\<open>HomePage.getProductCount\<close>,
  \<^verbatim>\<open>LoginPage.getErrorMessage\<close>, the visibility probes
  \<^verbatim>\<open>isProductGridDisplayed\<close>, \<^verbatim>\<open>isNoResultsDisplayed\<close>,
  \<^verbatim>\<open>isFeaturedSectionDisplayed\<close> and \<^verbatim>\<open>isLoginFormDisplayed\<close>, and the count
  probe \<^verbatim>\<open>getCartItemCount\<close>. Against a page where the target element is absent they
  return the conservative default: \<^verbatim>\<open>false\<close> for the visibility probes, \<^verbatim>\<open>0\<close> for
  the counts, \<^verbatim>\<open>null\<close> for the error message. \<^verbatim>\<open>isLoginFormDisplayed\<close> returns
  true exactly when the library reports the email field, the password field and the login
  button visible, each at the time it is probed, and false as soon as one of them is absent.
\<close>

theorem tolerant_probes_never_raise:
  "(\<exists>b. fst (BasePage_isVisible A this ty v s) = Inr b)
   \<and> (\<exists>n. fst (HomePage_getProductCount A this s) = Inr n)
   \<and> (\<exists>m. fst (LoginPage_getErrorMessage A this s) = Inr m)
   \<and> (\<exists>b. fst (HomePage_isProductGridDisplayed A this s) = Inr b)
   \<and> (\<exists>b. fst (HomePage_isNoResultsDisplayed A this s) = Inr b)
   \<and> (\<exists>b. fst (HomePage_isFeaturedSectionDisplayed A this s) = Inr b)
   \<and> (\<exists>n. fst (HomePage_getCartItemCount A this s) = Inr n)
   \<and> (not_visible A this (GetByRole v None) [(''timeout'', JNum TIMEOUTS_SHORT)] s
        \<longrightarrow> fst (BasePage_isVisible A this (js ''role'') v s) = Inr False)
   \<and> (not_visible A this (GetByText (RegExp v (js ''i''))) [(''timeout'', JNum TIMEOUTS_SHORT)] s
        \<longrightarrow> fst (BasePage_isVisible A this (js ''text'') v s) = Inr False)
   \<and> (not_visible A this (GetByTestId v) [(''timeout'', JNum TIMEOUTS_SHORT)] s
        \<longrightarrow> fst (BasePage_isVisible A this (js ''testId'') v s) = Inr False)
   \<and> (no_match A this getAllProducts s
        \<longrightarrow> fst (HomePage_getProductCount A this s) = Inr 0)
   \<and> (not_visible A this errorElement [(''timeout'', JNum TIMEOUTS_SHORT)] s
        \<longrightarrow> fst (LoginPage_getErrorMessage A this s) = Inr None)
   \<and> (not_visible A this getProductGrid [(''timeout'', JNum TIMEOUTS_SHORT)] s
        \<longrightarrow> fst (HomePage_isProductGridDisplayed A this s) = Inr False)
   \<and> (not_visible A this noResultsLocator [(''timeout'', JNum TIMEOUTS_SHORT)] s
        \<longrightarrow> fst (HomePage_isNoResultsDisplayed A this s) = Inr False)
   \<and> (not_visible A this getFeaturedSection [(''timeout'', JNum TIMEOUTS_SHORT)] s
        \<longrightarrow> fst (HomePage_isFeaturedSectionDisplayed A this s) = Inr False)
   \<and> (not_visible A this cartBadge [(''timeout'', JNum TIMEOUTS_SHORT)] s
        \<longrightarrow> fst (HomePage_getCartItemCount A this s) = Inr (JNum 0))
   \<and> fst (LoginPage_isLoginFormDisplayed A this s) =
       Inr (let p1 = lib_isVisible A (page this) getEmailField
                       [(''timeout'', JNum TIMEOUTS_SHORT)] (world s);
                p2 = lib_isVisible A (page this) getPasswordField
                       [(''timeout'', JNum TIMEOUTS_SHORT)] (snd p1);
                p3 = lib_isVisible A (page this) getLoginButton
                       [(''timeout'', JNum TIMEOUTS_SHORT)] (snd p2)
            in fst p1 = Inr True \<and> fst p2 = Inr True \<and> fst p3 = Inr True)"
  by (intro conjI impI BasePage_isVisible_total getProductCount_total getErrorMessage_total
        isProductGridDisplayed_total isNoResultsDisplayed_total isFeaturedSectionDisplayed_total
        getCartItemCount_total BasePage_isVisible_role_absent BasePage_isVisible_text_absent
        BasePage_isVisible_testId_absent getProductCount_absent getErrorMessage_absent
        isProductGridDisplayed_absent isNoResultsDisplayed_absent
        isFeaturedSectionDisplayed_absent getCartItemCount_absent isLoginFormDisplayed_result)

theorem tolerant_probes_never_raise_witness:
  "not_visible demo demo_HomePage (GetByText (RegExp (js ''NonExistentElement'') (js ''i'')))
     [(''timeout'', JNum TIMEOUTS_SHORT)] (start blank_page)
   \<and> fst (BasePage_isVisible demo demo_HomePage (js ''text'') (js ''NonExistentElement'')
            (start blank_page)) = Inr False
   \<and> no_match demo demo_HomePage getAllProducts (start blank_page)
   \<and> fst (HomePage_getProductCount demo demo_HomePage (start blank_page)) = Inr 0
   \<and> not_visible demo demo_HomePage errorElement [(''timeout'', JNum TIMEOUTS_SHORT)]
        (start blank_page)
   \<and> fst (LoginPage_getErrorMessage demo demo_HomePage (start blank_page)) = Inr None
   \<and> not_visible demo demo_HomePage cartBadge [(''timeout'', JNum TIMEOUTS_SHORT)]
        (start blank_page)
   \<and> fst (HomePage_getCartItemCount demo demo_HomePage (start blank_page)) = Inr (JNum 0)
   \<and> fst (LoginPage_isLoginFormDisplayed demo demo_LoginPage (start no_password_field))
       = Inr False
   \<and> fst (LoginPage_isLoginFormDisplayed demo demo_LoginPage (start login_form)) = Inr True"
proof -
  note blank = tolerant_probes_never_raise
          [of demo demo_HomePage "js ''text''" "js ''NonExistentElement''" "start blank_page"]
  note partial = tolerant_probes_never_raise
          [of demo demo_LoginPage "js ''text''" "js ''x''" "start no_password_field"]
  note full = tolerant_probes_never_raise
          [of demo demo_LoginPage "js ''text''" "js ''x''" "start login_form"]
  have p: "fst (LoginPage_isLoginFormDisplayed demo demo_LoginPage (start no_password_field))
             = Inr False"
    using partial
    by (simp add: Let_def demo_def start_def no_password_field_def getEmailField_def
          getPasswordField_def getLoginButton_def js_def)
  have f: "fst (LoginPage_isLoginFormDisplayed demo demo_LoginPage (start login_form)) = Inr True"
    using full
    by (simp add: Let_def demo_def start_def login_form_def)
  show ?thesis
    using blank p f by (simp add: blank_page_not_visible blank_page_no_match)
qed

section \<open>fillPassword\<close>

text \<open>
  C4. \<^verbatim>\<open>fillPassword(name, value)\<close> first fills the password input found by its label;
  if that succeeds the call succeeds and nothing else is tried. If it fails, the method falls
  back to the input whose placeholder matches \<open>name\<close>: if the fallback succeeds the call
  succeeds; if the fallback fails (the pattern is rejected or the fill throws) the error
  raised to the caller is the fallback's, not the first attempt's.
\<close>

theorem fillPassword_falls_back_to_placeholder:
  assumes "lib_fill A (page this) (password_by_label name) v options (world s) = (r1, w1)"
    and "lib_fill A (page this) (GetByPlaceholder (RegExp name (js ''i''))) v options w1 = (r2, w2)"
  shows \<open>BasePage_fillPassword A this name v options s =
    (case r1 of
       Inr _ \<Rightarrow>
         (Inr (),
          s\<lparr>world := w1,
            calls := calls s @ [CallFill (page this) (password_by_label name) v options],
            console := console s @
              [ConsoleLog (formattedMessage A w1 (js ''PASS'')
                 (js ''Filled password field with masked value'') colors_GREEN)]\<rparr>)
     | Inl e1 \<Rightarrow>
         (case regexp_syntax_error A name (js ''i'') of
            Some e \<Rightarrow>
              (Inl (Thrown e),
               s\<lparr>world := w1,
                 calls := calls s @ [CallFill (page this) (password_by_label name) v options],
                 console := console s @
                   printed_by_error A w1 (js ''Failed to fill password field "'' @ name @ js ''"'')
                     (Thrown e)\<rparr>)
          | None \<Rightarrow>
              (case r2 of
                 Inr _ \<Rightarrow>
                   (Inr (),
                    s\<lparr>world := w2,
                      calls := calls s @
                        [CallFill (page this) (password_by_label name) v options,
                         CallFill (page this) (GetByPlaceholder (RegExp name (js ''i''))) v options],
                      console := console s @
                        [ConsoleLog (formattedMessage A w2 (js ''PASS'')
                           (js ''Filled password field with placeholder'') colors_GREEN)]\<rparr>)
               | Inl e2 \<Rightarrow>
                   (Inl (Thrown e2),
                    s\<lparr>world := w2,
                      calls := calls s @
                        [CallFill (page this) (password_by_label name) v options,
                         CallFill (page this) (GetByPlaceholder (RegExp name (js ''i''))) v options],
                      console := console s @
                        printed_by_error A w2
                          (js ''Failed to fill password field "'' @ name @ js ''"'')
                          (Thrown e2)\<rparr>))))\<close>
  using assms
  by (simp add: BasePage_fillPassword_def locator_fill_def new_RegExp_def flow_defs
           split: sum.splits option.splits)

theorem fillPassword_falls_back_to_placeholder_witness:
  "fst (BasePage_fillPassword demo demo_BasePage (js ''Password'') (js ''s3cret'') []
          (start placeholder_only)) = Inr ()
   \<and> typed (world (snd (BasePage_fillPassword demo demo_BasePage (js ''Password'') (js ''s3cret'') []
          (start placeholder_only))))
       = [(GetByPlaceholder (RegExp (js ''Password'') (js ''i'')), js ''s3cret'')]
   \<and> fst (BasePage_fillPassword demo demo_BasePage (js ''Password'') (js ''s3cret'') []
          (start blank_page))
       = Inl (Thrown (TimeoutError (GetByPlaceholder (RegExp (js ''Password'') (js ''i'')))))"
proof -
  have p1: "lib_fill demo (page demo_BasePage) (password_by_label (js ''Password'')) (js ''s3cret'') []
              (world (start placeholder_only))
            = (Inl (TimeoutError (password_by_label (js ''Password''))), placeholder_only)"
    by (simp add: demo_def start_def placeholder_only_def password_by_label_def)
  have p2: "lib_fill demo (page demo_BasePage) (GetByPlaceholder (RegExp (js ''Password'') (js ''i'')))
              (js ''s3cret'') [] placeholder_only
            = (Inr (), placeholder_only\<lparr>typed :=
                 [(GetByPlaceholder (RegExp (js ''Password'') (js ''i'')), js ''s3cret'')]\<rparr>)"
    by (simp add: demo_def placeholder_only_def)
  have q1: "lib_fill demo (page demo_BasePage) (password_by_label (js ''Password'')) (js ''s3cret'') []
              (world (start blank_page))
            = (Inl (TimeoutError (password_by_label (js ''Password''))), blank_page)"
    by (simp add: demo_def start_def blank_page_def)
  have q2: "lib_fill demo (page demo_BasePage) (GetByPlaceholder (RegExp (js ''Password'') (js ''i'')))
              (js ''s3cret'') [] blank_page
            = (Inl (TimeoutError (GetByPlaceholder (RegExp (js ''Password'') (js ''i'')))), blank_page)"
    by (simp add: demo_def blank_page_def)
  have rx: "regexp_syntax_error demo (js ''Password'') (js ''i'') = None"
    by (simp add: demo_def js_def)
  show ?thesis
    using fillPassword_falls_back_to_placeholder [OF p1 p2]
          fillPassword_falls_back_to_placeholder [OF q1 q2]
    by (simp add: rx)
qed

section \<open>The login workflow\<close>

lemma enterEmail_result:
  assumes "lib_fill A (page this) getEmailField email [(''timeout'', JNum TIMEOUTS_ELEMENT)] (world s)
             = (r, w')"
  shows "LoginPage_enterEmail A this email s =
    (case r of
       Inr _ \<Rightarrow>
         (Inr (),
          s\<lparr>world := w',
            calls := calls s @
              [CallFill (page this) getEmailField email [(''timeout'', JNum TIMEOUTS_ELEMENT)]],
            console := console s @
              [ConsoleLog (formattedMessage A w' (js ''PASS'')
                 (js ''Entered email: '' @ email) colors_GREEN)]\<rparr>)
     | Inl e \<Rightarrow>
         (Inl (Thrown e),
          s\<lparr>world := w',
            calls := calls s @
              [CallFill (page this) getEmailField email [(''timeout'', JNum TIMEOUTS_ELEMENT)]],
            console := console s @
              printed_by_error A w' (js ''Failed to enter email'') (Thrown e)\<rparr>))"
  using assms
  by (simp add: LoginPage_enterEmail_def locator_fill_def flow_defs split: sum.splits)

lemma enterPassword_result:
  assumes "lib_fill A (page this) getPasswordField password
             [(''timeout'', JNum TIMEOUTS_ELEMENT)] (world s) = (r, w')"
  shows "LoginPage_enterPassword A this password s =
    (case r of
       Inr _ \<Rightarrow>
         (Inr (),
          s\<lparr>world := w',
            calls := calls s @
              [CallFill (page this) getPasswordField password
                 [(''timeout'', JNum TIMEOUTS_ELEMENT)]],
            console := console s @
              [ConsoleLog (formattedMessage A w' (js ''PASS'')
                 (js ''Entered password'') colors_GREEN)]\<rparr>)
     | Inl e \<Rightarrow>
         (Inl (Thrown e),
          s\<lparr>world := w',
            calls := calls s @
              [CallFill (page this) getPasswordField password
                 [(''timeout'', JNum TIMEOUTS_ELEMENT)]],
            console := console s @
              printed_by_error A w' (js ''Failed to enter password'') (Thrown e)\<rparr>))"
  using assms
  by (simp add: LoginPage_enterPassword_def locator_fill_def flow_defs split: sum.splits)

lemma clickLoginButton_result:
  assumes "lib_click A (page this) getLoginButton [(''timeout'', JNum TIMEOUTS_ELEMENT)] (world s)
             = (r, w')"
  shows "LoginPage_clickLoginButton A this s =
    (case r of
       Inr _ \<Rightarrow>
         (Inr (),
          s\<lparr>world := set_timeout A DELAYS_MEDIUM_DELAY w',
            calls := calls s @
              [CallClick (page this) getLoginButton [(''timeout'', JNum TIMEOUTS_ELEMENT)],
               CallSetTimeout DELAYS_MEDIUM_DELAY],
            console := console s @
              [ConsoleLog (formattedMessage A w' (js ''PASS'')
                 (js ''Clicked login button'') colors_GREEN)]\<rparr>)
     | Inl e \<Rightarrow>
         (Inl (Thrown e),
          s\<lparr>world := w',
            calls := calls s @
              [CallClick (page this) getLoginButton [(''timeout'', JNum TIMEOUTS_ELEMENT)]],
            console := console s @
              printed_by_error A w' (js ''Failed to click login button'') (Thrown e)\<rparr>))"
  using assms
  by (simp add: LoginPage_clickLoginButton_def locator_click_def BasePage_delay_def flow_defs
           split: sum.splits)

text \<open>The composite in terms of its three steps.\<close>

lemma login_steps:
  "LoginPage_login A this email password s =
     (let s0 = s\<lparr>console := console s @
              [ConsoleLog (formattedMessage A (world s) (js ''INFO'')
                 (js ''Starting login process'') colors_CYAN)]\<rparr> in
      case LoginPage_enterEmail A this email s0 of
        (Inl e, s1) \<Rightarrow>
          (Inl e, s1\<lparr>console := console s1 @
              printed_by_error A (world s1) (js ''Login process failed'') e\<rparr>)
      | (Inr _, s1) \<Rightarrow>
          (case LoginPage_enterPassword A this password s1 of
             (Inl e, s2) \<Rightarrow>
               (Inl e, s2\<lparr>console := console s2 @
              printed_by_error A (world s2) (js ''Login process failed'') e\<rparr>)
           | (Inr _, s2) \<Rightarrow>
               (case LoginPage_clickLoginButton A this s2 of
                  (Inl e, s3) \<Rightarrow>
                    (Inl e,
                     s3\<lparr>console := console s3 @
              printed_by_error A (world s3) (js ''Login process failed'') e\<rparr>)
                | (Inr _, s3) \<Rightarrow>
                    (Inr (),
                     s3\<lparr>console := console s3 @
              [ConsoleLog (formattedMessage A (world s3) (js ''PASS'')
                 (js ''Login completed successfully'') colors_GREEN)]\<rparr>))))"
  by (simp add: LoginPage_login_def return_ok_def throw_def and_then_def try_catch_def
        console_log_def console_error_def Logger_log_def logger_info_def logger_pass_def
        logger_error_def printed_by_error_def Let_def
      split: prod.splits sum.splits)

text \<open>
  C5. \<^verbatim>\<open>login(email, password)\<close> runs \<^verbatim>\<open>enterEmail\<close>, then \<^verbatim>\<open>enterPassword\<close>,
  then \<^verbatim>\<open>clickLoginButton\<close>, in that order and each at most once. When a step fails
  the later steps are not run and the error that step raised is what the caller receives;
  nothing is retried and nothing is undone: the browser is left as the last step that ran
  left it. The calls made on the page are exactly the fill of the email field, the fill of
  the password field, the click on the login button and the settle delay, cut after the
  first call that fails.
\<close>

theorem login_runs_steps_in_order:
  assumes "lib_fill A (page this) getEmailField email [(''timeout'', JNum TIMEOUTS_ELEMENT)] (world s)
             = (r1, w1)"
    and "lib_fill A (page this) getPasswordField password [(''timeout'', JNum TIMEOUTS_ELEMENT)] w1
             = (r2, w2)"
    and "lib_click A (page this) getLoginButton [(''timeout'', JNum TIMEOUTS_ELEMENT)] w2 = (r3, w3)"
  shows
    "fst (LoginPage_login A this email password s) =
       (case r1 of Inl e \<Rightarrow> Inl (Thrown e) | Inr _ \<Rightarrow>
        (case r2 of Inl e \<Rightarrow> Inl (Thrown e) | Inr _ \<Rightarrow>
         (case r3 of Inl e \<Rightarrow> Inl (Thrown e) | Inr _ \<Rightarrow> Inr ())))
     \<and> calls (snd (LoginPage_login A this email password s)) =
       calls s @
       CallFill (page this) getEmailField email [(''timeout'', JNum TIMEOUTS_ELEMENT)] #
       (case r1 of Inl e \<Rightarrow> [] | Inr _ \<Rightarrow>
        CallFill (page this) getPasswordField password [(''timeout'', JNum TIMEOUTS_ELEMENT)] #
        (case r2 of Inl e \<Rightarrow> [] | Inr _ \<Rightarrow>
         CallClick (page this) getLoginButton [(''timeout'', JNum TIMEOUTS_ELEMENT)] #
         (case r3 of Inl e \<Rightarrow> [] | Inr _ \<Rightarrow> [CallSetTimeout DELAYS_MEDIUM_DELAY])))
     \<and> world (snd (LoginPage_login A this email password s)) =
       (case r1 of Inl e \<Rightarrow> w1 | Inr _ \<Rightarrow>
        (case r2 of Inl e \<Rightarrow> w2 | Inr _ \<Rightarrow>
         (case r3 of Inl e \<Rightarrow> w3 | Inr _ \<Rightarrow> set_timeout A DELAYS_MEDIUM_DELAY w3)))
     \<and> LoginPage_login A this email password s =
       (let s0 = s\<lparr>console := console s @
              [ConsoleLog (formattedMessage A (world s) (js ''INFO'')
                 (js ''Starting login process'') colors_CYAN)]\<rparr> in
        case LoginPage_enterEmail A this email s0 of
          (Inl e, s1) \<Rightarrow>
            (Inl e, s1\<lparr>console := console s1 @
              printed_by_error A (world s1) (js ''Login process failed'') e\<rparr>)
        | (Inr _, s1) \<Rightarrow>
            (case LoginPage_enterPassword A this password s1 of
               (Inl e, s2) \<Rightarrow>
                 (Inl e,
                  s2\<lparr>console := console s2 @
              printed_by_error A (world s2) (js ''Login process failed'') e\<rparr>)
             | (Inr _, s2) \<Rightarrow>
                 (case LoginPage_clickLoginButton A this s2 of
                    (Inl e, s3) \<Rightarrow>
                      (Inl e,
                       s3\<lparr>console := console s3 @
              printed_by_error A (world s3) (js ''Login process failed'') e\<rparr>)
                  | (Inr _, s3) \<Rightarrow>
                      (Inr (),
                       s3\<lparr>console := console s3 @
              [ConsoleLog (formattedMessage A (world s3) (js ''PASS'')
                 (js ''Login completed successfully'') colors_GREEN)]\<rparr>))))"
  using assms
  by (intro conjI login_steps; cases r1; cases r2; cases r3)
     (simp_all add: LoginPage_login_def LoginPage_enterEmail_def LoginPage_enterPassword_def
        LoginPage_clickLoginButton_def locator_fill_def locator_click_def BasePage_delay_def
        flow_defs)

theorem login_runs_steps_in_order_witness:
  "fst (LoginPage_login demo demo_LoginPage (js ''a@b.c'') (js ''pw'') (start login_form)) = Inr ()
   \<and> calls (snd (LoginPage_login demo demo_LoginPage (js ''a@b.c'') (js ''pw'') (start login_form)))
       = [CallFill 7 getEmailField (js ''a@b.c'') [(''timeout'', JNum 3000)],
          CallFill 7 getPasswordField (js ''pw'') [(''timeout'', JNum 3000)],
          CallClick 7 getLoginButton [(''timeout'', JNum 3000)],
          CallSetTimeout 1000]
   \<and> fst (LoginPage_login demo demo_LoginPage (js ''a@b.c'') (js ''pw'') (start no_password_field))
       = Inl (Thrown (TimeoutError getPasswordField))
   \<and> calls (snd (LoginPage_login demo demo_LoginPage (js ''a@b.c'') (js ''pw'')
                    (start no_password_field)))
       = [CallFill 7 getEmailField (js ''a@b.c'') [(''timeout'', JNum 3000)],
          CallFill 7 getPasswordField (js ''pw'') [(''timeout'', JNum 3000)]]
   \<and> typed (world (snd (LoginPage_login demo demo_LoginPage (js ''a@b.c'') (js ''pw'')
                           (start no_password_field))))
       = [(getEmailField, js ''a@b.c'')]"
proof -
  have a1: "lib_fill demo (page demo_LoginPage) getEmailField (js ''a@b.c'')
              [(''timeout'', JNum TIMEOUTS_ELEMENT)] (world (start login_form))
            = (Inr (), login_form\<lparr>typed := [(getEmailField, js ''a@b.c'')]\<rparr>)"
    by (simp add: demo_def start_def login_form_def)
  have a2: "lib_fill demo (page demo_LoginPage) getPasswordField (js ''pw'')
              [(''timeout'', JNum TIMEOUTS_ELEMENT)]
              (login_form\<lparr>typed := [(getEmailField, js ''a@b.c'')]\<rparr>)
            = (Inr (), login_form\<lparr>typed :=
                 [(getPasswordField, js ''pw''), (getEmailField, js ''a@b.c'')]\<rparr>)"
    by (simp add: demo_def login_form_def)
  have a3: "lib_click demo (page demo_LoginPage) getLoginButton
              [(''timeout'', JNum TIMEOUTS_ELEMENT)]
              (login_form\<lparr>typed :=
                 [(getPasswordField, js ''pw''), (getEmailField, js ''a@b.c'')]\<rparr>)
            = (Inr (), login_form\<lparr>typed :=
                 [(getPasswordField, js ''pw''), (getEmailField, js ''a@b.c'')], shown := []\<rparr>)"
    by (simp add: demo_def login_form_def)
  have b1: "lib_fill demo (page demo_LoginPage) getEmailField (js ''a@b.c'')
              [(''timeout'', JNum TIMEOUTS_ELEMENT)] (world (start no_password_field))
            = (Inr (), no_password_field\<lparr>typed := [(getEmailField, js ''a@b.c'')]\<rparr>)"
    by (simp add: demo_def start_def no_password_field_def)
  have b2: "lib_fill demo (page demo_LoginPage) getPasswordField (js ''pw'')
              [(''timeout'', JNum TIMEOUTS_ELEMENT)]
              (no_password_field\<lparr>typed := [(getEmailField, js ''a@b.c'')]\<rparr>)
            = (Inl (TimeoutError getPasswordField),
               no_password_field\<lparr>typed := [(getEmailField, js ''a@b.c'')]\<rparr>)"
    by (simp add: demo_def no_password_field_def getEmailField_def getPasswordField_def
          getLoginButton_def js_def)
  have b3: "lib_click demo (page demo_LoginPage) getLoginButton
              [(''timeout'', JNum TIMEOUTS_ELEMENT)]
              (no_password_field\<lparr>typed := [(getEmailField, js ''a@b.c'')]\<rparr>)
            = (Inr (), no_password_field\<lparr>typed := [(getEmailField, js ''a@b.c'')], shown := []\<rparr>)"
    by (simp add: demo_def no_password_field_def)
  note ok = login_runs_steps_in_order [OF a1 a2 a3]
  note ko = login_runs_steps_in_order [OF b1 b2 b3]
  show ?thesis
    using ok [THEN conjunct1] ok [THEN conjunct2, THEN conjunct1]
          ko [THEN conjunct1] ko [THEN conjunct2, THEN conjunct1]
          ko [THEN conjunct2, THEN conjunct2, THEN conjunct1]
    by (simp add: start_def demo_LoginPage_def TIMEOUTS_ELEMENT_def DELAYS_MEDIUM_DELAY_def)
qed

section \<open>Error messages on the login page\<close>

lemma js_trim_empty_iff:
  "js_trim m = [] \<longleftrightarrow> (\<forall>c\<in>set m. is_js_whitespace c)"
proof -
  have "(\<forall>c\<in>set (dropWhile is_js_whitespace m). is_js_whitespace c)
          \<longleftrightarrow> (\<forall>c\<in>set m. is_js_whitespace c)"
  proof
    assume a: "\<forall>c\<in>set (dropWhile is_js_whitespace m). is_js_whitespace c"
    have "set m = set (takeWhile is_js_whitespace m) \<union> set (dropWhile is_js_whitespace m)"
      by (metis set_append takeWhile_dropWhile_id)
    with a show "\<forall>c\<in>set m. is_js_whitespace c"
      by (auto dest: set_takeWhileD)
  next
    assume "\<forall>c\<in>set m. is_js_whitespace c"
    then show "\<forall>c\<in>set (dropWhile is_js_whitespace m). is_js_whitespace c"
      by (auto dest: set_dropWhileD)
  qed
  then show ?thesis
    by (simp add: js_trim_def dropWhile_eq_Nil_conv)
qed

lemma isErrorDisplayed_eq:
  "LoginPage_isErrorDisplayed A this s =
     (case LoginPage_getErrorMessage A this s of
        (Inr None, s') \<Rightarrow> (Inr False, s')
      | (Inr (Some m), s') \<Rightarrow> (Inr (js_trim m \<noteq> []), s')
      | (Inl e, s') \<Rightarrow>
          (Inr False, s'\<lparr>console := console s' @
              [ConsoleLog (formattedMessage A (world s') (js ''DEBUG'')
                 (js ''Error checking for error message'') colors_MAGENTA)]\<rparr>))"
  by (simp add: LoginPage_isErrorDisplayed_def flow_defs split: prod.splits sum.splits option.splits)

text \<open>
  C6 (as the code has it). The claim reads: \<^verbatim>\<open>isErrorDisplayed()\<close> returns true exactly
  when \<^verbatim>\<open>getErrorMessage()\<close> returns a non-empty string. The code trims the message
  before it looks at its length: for every page state, \<^verbatim>\<open>isErrorDisplayed()\<close> returns
  true exactly when \<^verbatim>\<open>getErrorMessage()\<close> returns a string with at least one character
  that is not white space, and false when it returns \<^verbatim>\<open>null\<close>, the empty string or a
  string of white space only; it never raises, and leaves the state \<^verbatim>\<open>getErrorMessage()\<close>
  leaves.
\<close>

theorem isErrorDisplayed_iff_message_has_visible_text:
  "LoginPage_isErrorDisplayed A this s =
     (Inr (\<exists>m. fst (LoginPage_getErrorMessage A this s) = Inr (Some m)
               \<and> (\<exists>c\<in>set m. \<not> is_js_whitespace c)),
      snd (LoginPage_getErrorMessage A this s))"
proof -
  obtain r s' where g: "LoginPage_getErrorMessage A this s = (Inr r, s')"
    using getErrorMessage_total[of A this s] by (cases "LoginPage_getErrorMessage A this s") auto
  show ?thesis
    by (cases r) (simp_all add: isErrorDisplayed_eq g js_trim_empty_iff)
qed

theorem isErrorDisplayed_counterexample:
  "fst (LoginPage_getErrorMessage demo demo_LoginPage (start blank_error)) = Inr (Some (js ''  ''))
   \<and> length (js ''  '') > 0
   \<and> fst (LoginPage_isErrorDisplayed demo demo_LoginPage (start blank_error)) = Inr False"
  by (simp add: LoginPage_isErrorDisplayed_def LoginPage_getErrorMessage_def
        isVisible_or_false_def locator_isVisible_def locator_textContent_def flow_defs
        demo_def start_def blank_error_def js_trim_def is_js_whitespace_def js_def)

theorem isErrorDisplayed_iff_message_has_visible_text_witness:
  "fst (LoginPage_getErrorMessage demo demo_LoginPage (start login_error))
     = Inr (Some (js '' Invalid login ''))
   \<and> (\<exists>c\<in>set (js '' Invalid login ''). \<not> is_js_whitespace c)
   \<and> fst (LoginPage_isErrorDisplayed demo demo_LoginPage (start login_error)) = Inr True
   \<and> fst (LoginPage_isErrorDisplayed demo demo_LoginPage (start blank_page)) = Inr False"
proof -
  have g: "fst (LoginPage_getErrorMessage demo demo_LoginPage (start login_error))
             = Inr (Some (js '' Invalid login ''))"
    by (simp add: LoginPage_getErrorMessage_def isVisible_or_false_def locator_isVisible_def
          locator_textContent_def flow_defs demo_def start_def login_error_def)
  have n: "fst (LoginPage_getErrorMessage demo demo_LoginPage (start blank_page)) = Inr None"
    by (simp add: LoginPage_getErrorMessage_def isVisible_or_false_def locator_isVisible_def
          locator_textContent_def flow_defs demo_def start_def blank_page_def)
  have c: "\<exists>c\<in>set (js '' Invalid login ''). \<not> is_js_whitespace c"
    by (simp add: js_def is_js_whitespace_def)
  show ?thesis
    using g n c
      isErrorDisplayed_iff_message_has_visible_text [of demo demo_LoginPage "start login_error"]
      isErrorDisplayed_iff_message_has_visible_text [of demo demo_LoginPage "start blank_page"]
    by simp
qed

section \<open>Adding a product to the cart\<close>

lemma addProductToCart_eq:
  assumes "HomePage_clickProduct A this productName
             (s\<lparr>console := console s @
              [ConsoleLog (formattedMessage A (world s) (js ''INFO'')
                 (js ''Adding product to cart: '' @ productName) colors_CYAN)]\<rparr>)
           = (r, s1)"
    and "lib_isVisible A (page this) addToCartButton [(''timeout'', JNum TIMEOUTS_ELEMENT)] (world s1)
           = (v, w2)"
    and "lib_click A (page this) addToCartButton [(''timeout'', JNum TIMEOUTS_ELEMENT)] w2 = (c, w3)"
  shows "HomePage_addProductToCart A this productName s =
    (case r of
       Inl e \<Rightarrow>
         (Inl e,
          s1\<lparr>console := console s1 @
              printed_by_error A (world s1) (js ''Failed to add product to cart: '' @ productName) e\<rparr>)
     | Inr _ \<Rightarrow>
         if v = Inr True then
           (case c of
              Inl e \<Rightarrow>
                (Inl (Thrown e),
                 s1\<lparr>world := w3,
                    calls := calls s1 @
                      [CallIsVisible (page this) addToCartButton
                         [(''timeout'', JNum TIMEOUTS_ELEMENT)],
                       CallClick (page this) addToCartButton
                         [(''timeout'', JNum TIMEOUTS_ELEMENT)]],
                    console := console s1 @
              printed_by_error A w3 (js ''Failed to add product to cart: '' @ productName) (Thrown e)\<rparr>)
            | Inr _ \<Rightarrow>
                (Inr (),
                 s1\<lparr>world := set_timeout A DELAYS_MEDIUM_DELAY w3,
                    calls := calls s1 @
                      [CallIsVisible (page this) addToCartButton
                         [(''timeout'', JNum TIMEOUTS_ELEMENT)],
                       CallClick (page this) addToCartButton
                         [(''timeout'', JNum TIMEOUTS_ELEMENT)],
                       CallSetTimeout DELAYS_MEDIUM_DELAY],
                    console := console s1 @
              [ConsoleLog (formattedMessage A (set_timeout A DELAYS_MEDIUM_DELAY w3) (js ''PASS'')
                 (js ''Added product to cart: '' @ productName) colors_GREEN)]\<rparr>))
         else
           (Inr (),
            s1\<lparr>world := w2,
               calls := calls s1 @
                 [CallIsVisible (page this) addToCartButton [(''timeout'', JNum TIMEOUTS_ELEMENT)]],
               console := console s1 @
              [ConsoleLog (formattedMessage A w2 (js ''WARN'')
                 (js ''Add to cart button not found for: '' @ productName) colors_YELLOW)]\<rparr>))"
  using assms
  by (cases r; cases v; cases c)
     (auto simp: HomePage_addProductToCart_def isVisible_or_false_def locator_isVisible_def
        locator_click_def BasePage_delay_def flow_defs)

text \<open>
  C7. When \<^verbatim>\<open>addProductToCart(name)\<close> has clicked the named product and the library
  does not report an "add to cart" control visible within the element timeout (it answers
  false or throws), the method prints one warning line through \<^verbatim>\<open>logger.warn\<close> and
  returns normally, without clicking anything else. It raises exactly when clicking the product fails, with that error, or when
  the control is visible and the click on it fails, with the error of that click.
\<close>

theorem addProductToCart_without_button_is_a_noop:
  assumes "HomePage_clickProduct A this productName
             (s\<lparr>console := console s @
              [ConsoleLog (formattedMessage A (world s) (js ''INFO'')
                 (js ''Adding product to cart: '' @ productName) colors_CYAN)]\<rparr>)
           = (r, s1)"
    and "lib_isVisible A (page this) addToCartButton [(''timeout'', JNum TIMEOUTS_ELEMENT)] (world s1)
           = (v, w2)"
    and "lib_click A (page this) addToCartButton [(''timeout'', JNum TIMEOUTS_ELEMENT)] w2 = (c, w3)"
  shows
    "(r = Inr () \<and> v \<noteq> Inr True \<longrightarrow>
        HomePage_addProductToCart A this productName s =
          (Inr (),
           s1\<lparr>world := w2,
              calls := calls s1 @
                [CallIsVisible (page this) addToCartButton [(''timeout'', JNum TIMEOUTS_ELEMENT)]],
              console := console s1 @
              [ConsoleLog (formattedMessage A w2 (js ''WARN'')
                 (js ''Add to cart button not found for: '' @ productName) colors_YELLOW)]\<rparr>))
     \<and> ((\<exists>e. fst (HomePage_addProductToCart A this productName s) = Inl e)
          \<longleftrightarrow> (\<exists>e. r = Inl e) \<or> (r = Inr () \<and> v = Inr True \<and> (\<exists>e. c = Inl e)))
     \<and> (\<forall>e. r = Inl e \<longrightarrow> fst (HomePage_addProductToCart A this productName s) = Inl e)
     \<and> (\<forall>e. r = Inr () \<and> v = Inr True \<and> c = Inl e
            \<longrightarrow> fst (HomePage_addProductToCart A this productName s) = Inl (Thrown e))"
  by (cases r; cases c) (auto simp: addProductToCart_eq[OF assms])

theorem addProductToCart_without_button_is_a_noop_witness:
  "HomePage_addProductToCart demo demo_HomePage (js ''shirt'') (start product_without_button) =
     (Inr (),
      \<lparr>world = product_without_button,
       calls = [CallClick 7 (First (GetByText (RegExp (js ''shirt'') (js ''i''))))
                  [(''timeout'', JNum 3000)],
                CallSetTimeout 1000,
                CallIsVisible 7 addToCartButton [(''timeout'', JNum 3000)]],
       console =
         [ConsoleLog (0x1B # js ''[36m[12:00:00] [INFO] Adding product to cart: shirt''
                      @ 0x1B # js ''[0m''),
          ConsoleLog (0x1B # js ''[36m[12:00:00] [INFO] Clicking product: shirt''
                      @ 0x1B # js ''[0m''),
          ConsoleLog (0x1B # js ''[32m[12:00:00] [PASS] Clicked product: shirt''
                      @ 0x1B # js ''[0m''),
          ConsoleLog (0x1B # js ''[33m[12:00:00] [WARN] Add to cart button not found for: shirt''
                      @ 0x1B # js ''[0m'')]\<rparr>)"
proof -
  let ?s1 = "\<lparr>world = product_without_button,
       calls = [CallClick 7 (First (GetByText (RegExp (js ''shirt'') (js ''i''))))
                  [(''timeout'', JNum 3000)],
                CallSetTimeout 1000],
       console =
         [ConsoleLog (0x1B # js ''[36m[12:00:00] [INFO] Adding product to cart: shirt''
                      @ 0x1B # js ''[0m''),
          ConsoleLog (0x1B # js ''[36m[12:00:00] [INFO] Clicking product: shirt''
                      @ 0x1B # js ''[0m''),
          ConsoleLog (0x1B # js ''[32m[12:00:00] [PASS] Clicked product: shirt''
                      @ 0x1B # js ''[0m'')]\<rparr>"
  have a: "HomePage_clickProduct demo demo_HomePage (js ''shirt'')
             ((start product_without_button)\<lparr>console := console (start product_without_button) @
                [ConsoleLog (formattedMessage demo (world (start product_without_button))
                   (js ''INFO'') (js ''Adding product to cart: '' @ js ''shirt'') colors_CYAN)]\<rparr>)
           = (Inr (), ?s1)"
    by (simp add: HomePage_clickProduct_def new_RegExp_def locator_click_def BasePage_delay_def
          flow_defs formattedMessage_def getTimestamp_def colors_CYAN_def colors_GREEN_def
          colors_RESET_def demo_def demo_HomePage_def start_def product_without_button_def
          js_def TIMEOUTS_ELEMENT_def DELAYS_MEDIUM_DELAY_def)
  have b: "lib_isVisible demo (page demo_HomePage) addToCartButton
             [(''timeout'', JNum TIMEOUTS_ELEMENT)] (world ?s1) = (Inr False, product_without_button)"
    by (simp add: demo_def product_without_button_def addToCartButton_def)
  have c: "lib_click demo (page demo_HomePage) addToCartButton
             [(''timeout'', JNum TIMEOUTS_ELEMENT)] product_without_button
           = (Inl (TimeoutError addToCartButton), product_without_button)"
    by (simp add: demo_def product_without_button_def addToCartButton_def)
  show ?thesis
    using addProductToCart_without_button_is_a_noop [OF a b c, THEN conjunct1]
    by (simp add: demo_HomePage_def TIMEOUTS_ELEMENT_def js_def formattedMessage_def
          getTimestamp_def colors_YELLOW_def colors_RESET_def demo_def)
qed

section \<open>Timeout overrides\<close>

lemma map_of_set_prop:
  "map_of (set_prop obj k v) = (map_of obj)(k \<mapsto> v)"
  by (induction obj k v rule: set_prop.induct) (auto simp: fun_eq_iff)

lemma map_of_spread:
  "distinct (map fst src) \<Longrightarrow> map_of (spread target src) = map_of target ++ map_of src"
proof (induction target src rule: spread.induct)
  case (1 target)
  then show ?case by simp
next
  case (2 target k v ps)
  then have "k \<notin> dom (map_of ps)"
    by (simp add: dom_map_of_conv_image_fst)
  with 2 show ?case
    by (auto simp: map_of_set_prop fun_eq_iff map_add_def domIff split: option.splits)
qed

lemma get_prop_spread:
  assumes "distinct (map fst options)"
  shows "get_prop (spread [(k, t)] options) k =
           (if k \<in> fst ` set options then get_prop options k else t)"
proof (cases "map_of options k")
  case None
  then have "k \<notin> fst ` set options"
    by (simp add: map_of_eq_None_iff)
  with None show ?thesis
    by (simp add: get_prop_def map_of_spread[OF assms] map_add_def del: map_of_eq_None_iff)
next
  case (Some v)
  then have "k \<in> fst ` set options"
    by (metis map_of_eq_None_iff option.distinct(1))
  with Some show ?thesis
    by (simp add: get_prop_def map_of_spread[OF assms] map_add_def)
qed

lemma get_prop_absent:
  "k \<notin> fst ` set obj \<Longrightarrow> get_prop obj k = JUndefined"
  by (simp add: get_prop_def map_of_eq_None_iff[symmetric] del: map_of_eq_None_iff)

lemma goto_calls:
  "calls (snd (BasePage_goto A this url options s)) =
     calls s @
     [CallGoto (page this) url
        [(''waitUntil'', JStr (js ''networkidle'')),
         (''timeout'', js_or (get_prop options ''timeout'') (JNum TIMEOUTS_NAVIGATION))]]"
  by (simp add: BasePage_goto_def flow_defs Let_def split: prod.splits sum.splits)

lemma clickByTestId_calls:
  "calls (snd (BasePage_clickByTestId A this testId options s)) =
     calls s @
     [CallClick (page this) (GetByTestId testId)
        (spread [(''timeout'', js_or (get_prop options ''timeout'') (JNum TIMEOUTS_ELEMENT))]
           options)]"
  by (simp add: BasePage_clickByTestId_def locator_click_def flow_defs Let_def
           split: prod.splits sum.splits)

lemma clickByText_calls:
  "regexp_syntax_error A text (js ''i'') = None \<Longrightarrow>
   calls (snd (BasePage_clickByText A this text options s)) =
     calls s @
     [CallClick (page this) (First (GetByText (RegExp text (js ''i''))))
        (spread [(''timeout'', js_or (get_prop options ''timeout'') (JNum TIMEOUTS_ELEMENT))]
           options)]"
  by (simp add: BasePage_clickByText_def locator_click_def new_RegExp_def flow_defs Let_def
           split: prod.splits sum.splits)

lemma clickByRole_calls:
  "(\<forall>n. nameOrOptions = NameString n \<longrightarrow> regexp_syntax_error A n (js ''i'') = None) \<Longrightarrow>
   calls (snd (BasePage_clickByRole A this role nameOrOptions options s)) =
     calls s @
     [CallClick (page this)
        (GetByRole role
           (case nameOrOptions of
              NameString n \<Rightarrow> Some [(''name'', JRegExp (RegExp n (js ''i'')))]
            | OptionsObject obj \<Rightarrow> Some obj
            | NoName \<Rightarrow> None))
        (spread [(''timeout'', js_or (get_prop options ''timeout'') (JNum TIMEOUTS_ELEMENT))]
           options)]"
  by (cases nameOrOptions)
     (simp_all add: BasePage_clickByRole_def locator_click_def new_RegExp_def flow_defs Let_def
           split: prod.splits sum.splits)

text \<open>
  C9 (as the code has it). The claim reads: in \<^verbatim>\<open>goto\<close>, \<^verbatim>\<open>clickByRole\<close>,
  \<^verbatim>\<open>clickByText\<close> and \<^verbatim>\<open>clickByTestId\<close> a timeout override of 0 (or any falsy
  value) is replaced by the configured default, so that a caller cannot ask for a zero
  timeout. That holds for \<^verbatim>\<open>goto\<close>, which hands the library
  \<^verbatim>\<open>options.timeout || NAVIGATION\<close>. The click methods compute
  \<^verbatim>\<open>options.timeout || ELEMENT\<close> too, but hand the library
  \<^verbatim>\<open>{ timeout, ...options }\<close>: a \<^verbatim>\<open>timeout\<close> property that the caller's options
  carry, 0 included, overwrites the computed one and reaches the click as it is; the element
  default is used only when the options carry no \<^verbatim>\<open>timeout\<close> property.
\<close>

theorem timeout_override_reaches_click_but_not_goto:
  assumes "distinct (map fst options)"
    and "regexp_syntax_error A text (js ''i'') = None"
    and "\<forall>n. nameOrOptions = NameString n \<longrightarrow> regexp_syntax_error A n (js ''i'') = None"
  shows
    "(let passed = spread [(''timeout'', js_or (get_prop options ''timeout'') (JNum TIMEOUTS_ELEMENT))]
                     options
      in
        calls (snd (BasePage_goto A this url options s)) =
          calls s @
          [CallGoto (page this) url
             [(''waitUntil'', JStr (js ''networkidle'')),
              (''timeout'',
               if truthy (get_prop options ''timeout'') then get_prop options ''timeout''
               else JNum TIMEOUTS_NAVIGATION)]]
        \<and> calls (snd (BasePage_clickByRole A this role nameOrOptions options s)) =
          calls s @
          [CallClick (page this)
             (GetByRole role
                (case nameOrOptions of
                   NameString n \<Rightarrow> Some [(''name'', JRegExp (RegExp n (js ''i'')))]
                 | OptionsObject obj \<Rightarrow> Some obj
                 | NoName \<Rightarrow> None))
             passed]
        \<and> calls (snd (BasePage_clickByText A this text options s)) =
          calls s @ [CallClick (page this) (First (GetByText (RegExp text (js ''i'')))) passed]
        \<and> calls (snd (BasePage_clickByTestId A this testId options s)) =
          calls s @ [CallClick (page this) (GetByTestId testId) passed]
        \<and> get_prop passed ''timeout'' =
          (if ''timeout'' \<in> fst ` set options then get_prop options ''timeout''
           else JNum TIMEOUTS_ELEMENT))"
  using assms
  by (simp add: Let_def goto_calls clickByRole_calls clickByText_calls clickByTestId_calls
        get_prop_spread js_or_def get_prop_absent)

theorem zero_timeout_counterexample:
  "calls (snd (BasePage_clickByTestId demo demo_BasePage (js ''buy'') [(''timeout'', JNum 0)]
                 (start blank_page)))
     = [CallClick 7 (GetByTestId (js ''buy'')) [(''timeout'', JNum 0)]]
   \<and> JNum 0 \<noteq> JNum TIMEOUTS_ELEMENT"
  by (simp add: clickByTestId_calls js_or_def get_prop_def start_def demo_BasePage_def
        TIMEOUTS_ELEMENT_def)

theorem timeout_override_reaches_click_but_not_goto_witness:
  "calls (snd (BasePage_goto demo demo_BasePage (js ''/cart'') [(''timeout'', JNum 0)]
                 (start blank_page)))
     = [CallGoto 7 (js ''/cart'')
          [(''waitUntil'', JStr (js ''networkidle'')), (''timeout'', JNum 8000)]]
   \<and> calls (snd (BasePage_clickByText demo demo_BasePage (js ''Buy'') [(''timeout'', JNum 0)]
                 (start blank_page)))
     = [CallClick 7 (First (GetByText (RegExp (js ''Buy'') (js ''i'')))) [(''timeout'', JNum 0)]]
   \<and> calls (snd (BasePage_clickByRole demo demo_BasePage (js ''button'') NoName
                 [(''timeout'', JNum 0)] (start blank_page)))
     = [CallClick 7 (GetByRole (js ''button'') None) [(''timeout'', JNum 0)]]
   \<and> calls (snd (BasePage_clickByTestId demo demo_BasePage (js ''buy'') [] (start blank_page)))
     = [CallClick 7 (GetByTestId (js ''buy'')) [(''timeout'', JNum 3000)]]"
proof -
  have d0: "distinct (map fst [(''timeout'', JNum 0)])" and d1: "distinct (map fst ([] :: js_object))"
    by simp_all
  have rx: "regexp_syntax_error demo (js ''Buy'') (js ''i'') = None"
    by (simp add: demo_def js_def)
  have nn: "\<forall>n. NoName = NameString n \<longrightarrow> regexp_syntax_error demo n (js ''i'') = None"
    by simp
  show ?thesis
    using timeout_override_reaches_click_but_not_goto
            [OF d0 rx nn, where this = demo_BasePage and role = "js ''button''"
               and url = "js ''/cart''" and s = "start blank_page" and testId = "js ''buy''"]
          timeout_override_reaches_click_but_not_goto
            [OF d1 rx nn, where this = demo_BasePage and role = "js ''button''"
               and url = "js ''/cart''" and s = "start blank_page" and testId = "js ''buy''"]
    by (simp add: Let_def js_or_def get_prop_def start_def demo_BasePage_def
          TIMEOUTS_ELEMENT_def TIMEOUTS_NAVIGATION_def)
qed

section \<open>The authenticated-page fixture\<close>

lemma navigateToLogin_calls:
  "calls (snd (LoginPage_navigateToLogin A this s)) =
     calls s @
     [CallGoto (page this) (BASE_URL A)
        [(''waitUntil'', JStr (js ''networkidle'')), (''timeout'', JNum TIMEOUTS_NAVIGATION)]]"
  by (simp add: LoginPage_navigateToLogin_def BasePage_goto_def js_or_def get_prop_def flow_defs
        Let_def split: prod.splits sum.splits)

lemma isLoginFormDisplayed_calls:
  "calls (snd (LoginPage_isLoginFormDisplayed A this s)) =
     calls s @
     [CallIsVisible (page this) getEmailField [(''timeout'', JNum TIMEOUTS_SHORT)],
      CallIsVisible (page this) getPasswordField [(''timeout'', JNum TIMEOUTS_SHORT)],
      CallIsVisible (page this) getLoginButton [(''timeout'', JNum TIMEOUTS_SHORT)]]"
  by (simp add: LoginPage_isLoginFormDisplayed_def isVisible_or_false_def locator_isVisible_def
        flow_defs Let_def split: prod.splits sum.splits)

lemma verifyLoginSuccess_total:
  "\<exists>b. fst (LoginPage_verifyLoginSuccess A this s) = Inr b"
  by (auto simp: LoginPage_verifyLoginSuccess_def isVisible_or_false_def locator_isVisible_def
        flow_defs split: prod.splits sum.splits)

lemma authenticatedPage_eq:
  "authenticatedPage A pg use s =
     (case authenticatedPage_setup A pg
             (s\<lparr>console := console s @ printed_by_section (js ''SETTING UP AUTHENTICATED PAGE'')\<rparr>) of
        (Inl e, t) \<Rightarrow>
          (Inl e,
           t\<lparr>console := console t @
              printed_by_error A (world t) (js ''Failed to set up authenticated page'') e\<rparr>)
      | (Inr pageObjects, t) \<Rightarrow>
          (case use pageObjects t of
             (Inl e, t') \<Rightarrow>
               (Inl e,
                t'\<lparr>console := console t' @
              printed_by_error A (world t') (js ''Failed to set up authenticated page'') e\<rparr>)
           | (Inr _, t') \<Rightarrow>
               (Inr (),
                t'\<lparr>console := console t' @
              [ConsoleLog (formattedMessage A (world t') (js ''INFO'')
                 (js ''Authenticated page fixture teardown completed'') colors_CYAN)]\<rparr>)))"
  by (simp add: authenticatedPage_def and_then_def try_catch_def throw_def logger_section_run
        logger_error_run logger_info_def Logger_log_def console_log_def
      split: prod.splits sum.splits)

lemmas demo_run = LoginPage_navigateToLogin_def BasePage_goto_def
  LoginPage_isLoginFormDisplayed_def LoginPage_login_def LoginPage_enterEmail_def
  LoginPage_enterPassword_def LoginPage_clickLoginButton_def LoginPage_verifyLoginSuccess_def
  isVisible_or_false_def locator_isVisible_def locator_fill_def locator_click_def
  BasePage_delay_def flow_defs Let_def js_or_def get_prop_def demo_def start_def
  demo_LoginPage_def demo_HomePage_def getEmailField_def getPasswordField_def
  getLoginButton_def

text \<open>
  C8. The setup of the \<^verbatim>\<open>authenticatedPage\<close> fixture first navigates to the login
  page. When the login form is then visible it runs the login flow and verifies it, and raises
  the setup error "Login verification failed" exactly when the verification returns false;
  when the form is not visible it performs no login and yields directly, having only
  navigated and probed the three form elements. On both successful paths it yields the page
  handle with a HomePage and a LoginPage bound to that handle. The fixture prints the section
  header, runs the setup, and passes an error of the setup to \<^verbatim>\<open>logger.error\<close> and
  raises it, which fails the test.
\<close>

theorem authenticatedPage_logs_in_when_form_is_visible:
  assumes "lp = \<lparr>page = h, cls = LoginPageClass\<rparr>" and "hp = \<lparr>page = h, cls = HomePageClass\<rparr>"
    and "LoginPage_navigateToLogin A lp
           (s\<lparr>console := console s @
              [ConsoleLog (formattedMessage A (world s) (js ''INFO'')
                 (js ''LoginPage initialized'') colors_CYAN),
               ConsoleLog (formattedMessage A (world s) (js ''INFO'')
                 (js ''HomePage initialized'') colors_CYAN)]\<rparr>) = (rn, s1)"
    and "LoginPage_isLoginFormDisplayed A lp s1 = (Inr isLoginFormVisible, s2)"
    and "LoginPage_login A lp (CREDENTIALS_email A) (CREDENTIALS_password A)
           (s2\<lparr>console := console s2 @
              [ConsoleLog (formattedMessage A (world s2) (js ''INFO'')
                 (js ''Login form visible - performing login'') colors_CYAN)]\<rparr>)
         = (rl, s3)"
    and "LoginPage_verifyLoginSuccess A lp s3 = (Inr loginSuccess, s4)"
  shows
    "authenticatedPage_setup A (PageHandle h) s =
       (case rn of
          Inl e \<Rightarrow> (Inl e, s1)
        | Inr _ \<Rightarrow>
            if isLoginFormVisible then
              (case rl of
                 Inl e \<Rightarrow> (Inl e, s3)
               | Inr _ \<Rightarrow>
                   if loginSuccess then
                     (Inr \<lparr>bundle_page = PageHandle h, homePage = hp, loginPage = lp\<rparr>,
                      s4\<lparr>console := console s4 @
              [ConsoleLog (formattedMessage A (world s4) (js ''PASS'')
                 (js ''Successfully authenticated'') colors_GREEN)]\<rparr>)
                   else (Inl (Error (js ''Login verification failed'')), s4))
            else
              (Inr \<lparr>bundle_page = PageHandle h, homePage = hp, loginPage = lp\<rparr>,
               s2\<lparr>console := console s2 @
              [ConsoleLog (formattedMessage A (world s2) (js ''INFO'')
                 (js ''Already authenticated - skipping login'') colors_CYAN)]\<rparr>))
     \<and> calls s1 =
         calls s @
         [CallGoto h (BASE_URL A)
            [(''waitUntil'', JStr (js ''networkidle'')), (''timeout'', JNum TIMEOUTS_NAVIGATION)]]
     \<and> calls s2 =
         calls s1 @
         [CallIsVisible h getEmailField [(''timeout'', JNum TIMEOUTS_SHORT)],
          CallIsVisible h getPasswordField [(''timeout'', JNum TIMEOUTS_SHORT)],
          CallIsVisible h getLoginButton [(''timeout'', JNum TIMEOUTS_SHORT)]]
     \<and> authenticatedPage A (PageHandle h) use t =
         (case authenticatedPage_setup A (PageHandle h)
                 (t\<lparr>console := console t @
                      printed_by_section (js ''SETTING UP AUTHENTICATED PAGE'')\<rparr>) of
            (Inl e, t1) \<Rightarrow>
              (Inl e,
               t1\<lparr>console := console t1 @
              printed_by_error A (world t1) (js ''Failed to set up authenticated page'') e\<rparr>)
          | (Inr pageObjects, t1) \<Rightarrow>
              (case use pageObjects t1 of
                 (Inl e, t2) \<Rightarrow>
                   (Inl e,
                    t2\<lparr>console := console t2 @
              printed_by_error A (world t2) (js ''Failed to set up authenticated page'') e\<rparr>)
               | (Inr _, t2) \<Rightarrow>
                   (Inr (),
                    t2\<lparr>console := console t2 @
              [ConsoleLog (formattedMessage A (world t2) (js ''INFO'')
                 (js ''Authenticated page fixture teardown completed'') colors_CYAN)]\<rparr>)))"
proof (intro conjI authenticatedPage_eq)
  show "calls s1 = calls s @
         [CallGoto h (BASE_URL A)
            [(''waitUntil'', JStr (js ''networkidle'')), (''timeout'', JNum TIMEOUTS_NAVIGATION)]]"
    using navigateToLogin_calls[of A lp "s\<lparr>console := console s @
              [ConsoleLog (formattedMessage A (world s) (js ''INFO'')
                 (js ''LoginPage initialized'') colors_CYAN),
               ConsoleLog (formattedMessage A (world s) (js ''INFO'')
                 (js ''HomePage initialized'') colors_CYAN)]\<rparr>"] assms(1,3)
    by simp
  show "calls s2 = calls s1 @
         [CallIsVisible h getEmailField [(''timeout'', JNum TIMEOUTS_SHORT)],
          CallIsVisible h getPasswordField [(''timeout'', JNum TIMEOUTS_SHORT)],
          CallIsVisible h getLoginButton [(''timeout'', JNum TIMEOUTS_SHORT)]]"
    using isLoginFormDisplayed_calls[of A lp s1] assms(1,4) by simp
  show "authenticatedPage_setup A (PageHandle h) s =
       (case rn of
          Inl e \<Rightarrow> (Inl e, s1)
        | Inr _ \<Rightarrow>
            if isLoginFormVisible then
              (case rl of
                 Inl e \<Rightarrow> (Inl e, s3)
               | Inr _ \<Rightarrow>
                   if loginSuccess then
                     (Inr \<lparr>bundle_page = PageHandle h, homePage = hp, loginPage = lp\<rparr>,
                      s4\<lparr>console := console s4 @
              [ConsoleLog (formattedMessage A (world s4) (js ''PASS'')
                 (js ''Successfully authenticated'') colors_GREEN)]\<rparr>)
                   else (Inl (Error (js ''Login verification failed'')), s4))
            else
              (Inr \<lparr>bundle_page = PageHandle h, homePage = hp, loginPage = lp\<rparr>,
               s2\<lparr>console := console s2 @
              [ConsoleLog (formattedMessage A (world s2) (js ''INFO'')
                 (js ''Already authenticated - skipping login'') colors_CYAN)]\<rparr>))"
    using assms(3-6) unfolding assms(1,2)
    by (cases rn; cases rl)
       (simp_all add: authenticatedPage_setup_def new_LoginPage_def new_HomePage_def
          return_ok_def throw_def and_then_def console_log_def Logger_log_def logger_info_def
          logger_pass_def)
qed


theorem authenticatedPage_logs_in_when_form_is_visible_witness:
  "fst (authenticatedPage_setup demo (PageHandle 7) (start login_form))
     = Inr \<lparr>bundle_page = PageHandle 7, homePage = demo_HomePage, loginPage = demo_LoginPage\<rparr>
   \<and> fst (authenticatedPage_setup demo (PageHandle 7) (start sticky_login_form))
     = Inl (Error (js ''Login verification failed''))
   \<and> fst (authenticatedPage_setup demo (PageHandle 7) (start blank_page))
     = Inr \<lparr>bundle_page = PageHandle 7, homePage = demo_HomePage, loginPage = demo_LoginPage\<rparr>
   \<and> calls (snd (authenticatedPage_setup demo (PageHandle 7) (start blank_page)))
     = [CallGoto 7 (js ''https://sauce-demo.myshopify.com/'')
          [(''waitUntil'', JStr (js ''networkidle'')), (''timeout'', JNum 8000)],
        CallIsVisible 7 getEmailField [(''timeout'', JNum 2000)],
        CallIsVisible 7 getPasswordField [(''timeout'', JNum 2000)],
        CallIsVisible 7 getLoginButton [(''timeout'', JNum 2000)]]"
proof -
  have lp: "demo_LoginPage = \<lparr>page = 7, cls = LoginPageClass\<rparr>"
    and hp: "demo_HomePage = \<lparr>page = 7, cls = HomePageClass\<rparr>"
    by (simp_all add: demo_LoginPage_def demo_HomePage_def)
  have "\<exists>s1 s2 s3 s4.
      LoginPage_navigateToLogin demo demo_LoginPage
        ((start login_form)\<lparr>console := console (start login_form) @
              [ConsoleLog (formattedMessage demo (world (start login_form)) (js ''INFO'')
                 (js ''LoginPage initialized'') colors_CYAN),
               ConsoleLog (formattedMessage demo (world (start login_form)) (js ''INFO'')
                 (js ''HomePage initialized'') colors_CYAN)]\<rparr>) = (Inr (), s1)
      \<and> LoginPage_isLoginFormDisplayed demo demo_LoginPage s1 = (Inr True, s2)
      \<and> LoginPage_login demo demo_LoginPage (CREDENTIALS_email demo) (CREDENTIALS_password demo)
           (s2\<lparr>console := console s2 @
              [ConsoleLog (formattedMessage demo (world s2) (js ''INFO'')
                 (js ''Login form visible - performing login'') colors_CYAN)]\<rparr>)
         = (Inr (), s3)
      \<and> LoginPage_verifyLoginSuccess demo demo_LoginPage s3 = (Inr True, s4)"
    by (simp add: demo_run login_form_def)
  then obtain s1 s2 s3 s4 where
      a1: "LoginPage_navigateToLogin demo demo_LoginPage
        ((start login_form)\<lparr>console := console (start login_form) @
              [ConsoleLog (formattedMessage demo (world (start login_form)) (js ''INFO'')
                 (js ''LoginPage initialized'') colors_CYAN),
               ConsoleLog (formattedMessage demo (world (start login_form)) (js ''INFO'')
                 (js ''HomePage initialized'') colors_CYAN)]\<rparr>) = (Inr (), s1)"
      and a2: "LoginPage_isLoginFormDisplayed demo demo_LoginPage s1 = (Inr True, s2)"
      and a3: "LoginPage_login demo demo_LoginPage (CREDENTIALS_email demo) (CREDENTIALS_password demo)
           (s2\<lparr>console := console s2 @
              [ConsoleLog (formattedMessage demo (world s2) (js ''INFO'')
                 (js ''Login form visible - performing login'') colors_CYAN)]\<rparr>)
         = (Inr (), s3)"
      and a4: "LoginPage_verifyLoginSuccess demo demo_LoginPage s3 = (Inr True, s4)"
    by blast
  have "\<exists>s1 s2 s3 s4.
      LoginPage_navigateToLogin demo demo_LoginPage
        ((start sticky_login_form)\<lparr>console := console (start sticky_login_form) @
              [ConsoleLog (formattedMessage demo (world (start sticky_login_form)) (js ''INFO'')
                 (js ''LoginPage initialized'') colors_CYAN),
               ConsoleLog (formattedMessage demo (world (start sticky_login_form)) (js ''INFO'')
                 (js ''HomePage initialized'') colors_CYAN)]\<rparr>) = (Inr (), s1)
      \<and> LoginPage_isLoginFormDisplayed demo demo_LoginPage s1 = (Inr True, s2)
      \<and> LoginPage_login demo demo_LoginPage (CREDENTIALS_email demo) (CREDENTIALS_password demo)
           (s2\<lparr>console := console s2 @
              [ConsoleLog (formattedMessage demo (world s2) (js ''INFO'')
                 (js ''Login form visible - performing login'') colors_CYAN)]\<rparr>)
         = (Inr (), s3)
      \<and> LoginPage_verifyLoginSuccess demo demo_LoginPage s3 = (Inr False, s4)"
    by (simp add: demo_run sticky_login_form_def)
  then obtain t1 t2 t3 t4 where
      b1: "LoginPage_navigateToLogin demo demo_LoginPage
        ((start sticky_login_form)\<lparr>console := console (start sticky_login_form) @
              [ConsoleLog (formattedMessage demo (world (start sticky_login_form)) (js ''INFO'')
                 (js ''LoginPage initialized'') colors_CYAN),
               ConsoleLog (formattedMessage demo (world (start sticky_login_form)) (js ''INFO'')
                 (js ''HomePage initialized'') colors_CYAN)]\<rparr>) = (Inr (), t1)"
      and b2: "LoginPage_isLoginFormDisplayed demo demo_LoginPage t1 = (Inr True, t2)"
      and b3: "LoginPage_login demo demo_LoginPage (CREDENTIALS_email demo) (CREDENTIALS_password demo)
           (t2\<lparr>console := console t2 @
              [ConsoleLog (formattedMessage demo (world t2) (js ''INFO'')
                 (js ''Login form visible - performing login'') colors_CYAN)]\<rparr>)
         = (Inr (), t3)"
      and b4: "LoginPage_verifyLoginSuccess demo demo_LoginPage t3 = (Inr False, t4)"
    by blast
  have "\<exists>s1 s2 rl s3 ok s4.
      LoginPage_navigateToLogin demo demo_LoginPage
        ((start blank_page)\<lparr>console := console (start blank_page) @
              [ConsoleLog (formattedMessage demo (world (start blank_page)) (js ''INFO'')
                 (js ''LoginPage initialized'') colors_CYAN),
               ConsoleLog (formattedMessage demo (world (start blank_page)) (js ''INFO'')
                 (js ''HomePage initialized'') colors_CYAN)]\<rparr>) = (Inr (), s1)
      \<and> LoginPage_isLoginFormDisplayed demo demo_LoginPage s1 = (Inr False, s2)
      \<and> LoginPage_login demo demo_LoginPage (CREDENTIALS_email demo) (CREDENTIALS_password demo)
           (s2\<lparr>console := console s2 @
              [ConsoleLog (formattedMessage demo (world s2) (js ''INFO'')
                 (js ''Login form visible - performing login'') colors_CYAN)]\<rparr>)
         = (rl, s3)
      \<and> LoginPage_verifyLoginSuccess demo demo_LoginPage s3 = (Inr ok, s4)"
    by (simp add: demo_run blank_page_def) blast
  then obtain u1 u2 rl u3 ok u4 where
      c1: "LoginPage_navigateToLogin demo demo_LoginPage
        ((start blank_page)\<lparr>console := console (start blank_page) @
              [ConsoleLog (formattedMessage demo (world (start blank_page)) (js ''INFO'')
                 (js ''LoginPage initialized'') colors_CYAN),
               ConsoleLog (formattedMessage demo (world (start blank_page)) (js ''INFO'')
                 (js ''HomePage initialized'') colors_CYAN)]\<rparr>) = (Inr (), u1)"
      and c2: "LoginPage_isLoginFormDisplayed demo demo_LoginPage u1 = (Inr False, u2)"
      and c3: "LoginPage_login demo demo_LoginPage (CREDENTIALS_email demo) (CREDENTIALS_password demo)
           (u2\<lparr>console := console u2 @
              [ConsoleLog (formattedMessage demo (world u2) (js ''INFO'')
                 (js ''Login form visible - performing login'') colors_CYAN)]\<rparr>)
         = (rl, u3)"
      and c4: "LoginPage_verifyLoginSuccess demo demo_LoginPage u3 = (Inr ok, u4)"
    by blast
  note A = authenticatedPage_logs_in_when_form_is_visible [OF lp hp a1 a2 a3 a4]
  note B = authenticatedPage_logs_in_when_form_is_visible [OF lp hp b1 b2 b3 b4]
  note C = authenticatedPage_logs_in_when_form_is_visible [OF lp hp c1 c2 c3 c4]
  show ?thesis
    using A [THEN conjunct1] B [THEN conjunct1] C [THEN conjunct1]
      C [THEN conjunct2, THEN conjunct1] C [THEN conjunct2, THEN conjunct2, THEN conjunct1]
    by (simp add: start_def BASE_URL_def env_or_def demo_def TIMEOUTS_NAVIGATION_def
          TIMEOUTS_SHORT_def)
qed

end
